theory Spec2Isabelle
  imports Main "HOL-Library.Sublist"
begin

section \<open>JavaScript strings\<close>

text \<open>
  A JavaScript string is a sequence of UTF-16 code units, and \<^verbatim>\<open>length\<close>,
  \<^verbatim>\<open>includes\<close>, \<^verbatim>\<open>replace\<close>, \<^verbatim>\<open>split\<close> and a regular expression without
  the \<^verbatim>\<open>u\<close> flag all work on code units. The recipe texts are hangul and emoji, so
  the model writes a string as the list of its code units: a hangul syllable is one unit,
  an emoji of the source is a surrogate pair. \<open>ascii\<close> writes an ASCII literal.
\<close>

type_synonym jsstring = "nat list"

definition ascii :: "string \<Rightarrow> jsstring" where
  "ascii s = map of_char s"

text \<open>\<^verbatim>\<open>s.includes(sub)\<close>: \<open>sub\<close> occurs in \<open>s\<close> as a contiguous run.\<close>

fun js_includes :: "jsstring \<Rightarrow> jsstring \<Rightarrow> bool" where
  "js_includes [] sub = (sub = [])"
| "js_includes (x # xs) sub = (prefix sub (x # xs) \<or> js_includes xs sub)"

text \<open>
  \<^verbatim>\<open>s.replace(pat, rep)\<close> with a string pattern replaces the first occurrence only.
  (A \<^verbatim>\<open>$\<close> in the replacement would be special; no replacement of the source has one.)
\<close>

fun js_replace :: "jsstring \<Rightarrow> jsstring \<Rightarrow> jsstring \<Rightarrow> jsstring" where
  "js_replace pat rep [] = (if pat = [] then rep else [])"
| "js_replace pat rep (x # xs) =
     (if prefix pat (x # xs) then rep @ drop (length pat) (x # xs)
      else x # js_replace pat rep xs)"

text \<open>\<^verbatim>\<open>xs.join(' ')\<close>\<close>

fun join_space :: "jsstring list \<Rightarrow> jsstring" where
  "join_space [] = []"
| "join_space [x] = x"
| "join_space (x # y # ys) = x @ 32 # join_space (y # ys)"

text \<open>\<^verbatim>\<open>s.split(' ')[0]\<close>: the text before the first space, the whole text if there is none.\<close>

definition first_word :: "jsstring \<Rightarrow> jsstring" where
  "first_word s = takeWhile (\<lambda>c. c \<noteq> 32) s"

text \<open>\<^verbatim>\<open>s.split(/[,\n]/)\<close>: the pieces between commas and line feeds, empty ones included.\<close>

fun split_items :: "jsstring \<Rightarrow> jsstring list" where
  "split_items [] = [[]]"
| "split_items (c # cs) =
     (if c = 44 \<or> c = 10 then [] # split_items cs
      else (case split_items cs of [] \<Rightarrow> [[c]] | p # ps \<Rightarrow> (c # p) # ps))"

text \<open>The white space and line terminators that \<^verbatim>\<open>trim\<close> strips from both ends.\<close>

definition is_space :: "nat \<Rightarrow> bool" where
  "is_space c =
     (c \<in> set [9, 10, 11, 12, 13, 32, 160, 5760, 8232, 8233, 8239, 8287, 12288, 65279]
      \<or> (8192 \<le> c \<and> c \<le> 8202))"

definition trim :: "jsstring \<Rightarrow> jsstring" where
  "trim s = rev (dropWhile is_space (rev (dropWhile is_space s)))"

text \<open>
  \<^verbatim>\<open>toLowerCase\<close> is the language's own Unicode case mapping, not code of this
  repository: every function that calls it takes it as the parameter \<open>lc\<close>, and what is
  proved of such a function holds for every \<open>lc\<close>. Concrete runs use \<open>ascii_lower\<close>,
  which maps A to Z and nothing else; on text made of hangul, digits, punctuation and
  lower-case ASCII letters the built-in changes nothing either.
\<close>

definition ascii_lower :: "jsstring \<Rightarrow> jsstring" where
  "ascii_lower s = map (\<lambda>c. if 65 \<le> c \<and> c \<le> 90 then c + 32 else c) s"

text \<open>
  An object literal answers a property read with its own entry when it has one and with
  that of \<^verbatim>\<open>Object.prototype\<close> otherwise. These are the names that
  \<^verbatim>\<open>Object.prototype\<close> defines; each holds a function, \<^verbatim>\<open>__proto__\<close> the prototype
  itself. \<open>inherited_text\<close> is what such a value becomes inside a template literal (the
  layout of the function text is that of V8).
\<close>

definition object_prototype_keys :: "jsstring list" where
  "object_prototype_keys =
     [ascii ''constructor'', ascii ''hasOwnProperty'', ascii ''isPrototypeOf'',
      ascii ''propertyIsEnumerable'', ascii ''toLocaleString'', ascii ''toString'',
      ascii ''valueOf'', ascii ''__proto__'', ascii ''__defineGetter__'',
      ascii ''__defineSetter__'', ascii ''__lookupGetter__'', ascii ''__lookupSetter__'']"

definition inherited_text :: "jsstring \<Rightarrow> jsstring" where
  "inherited_text key =
     (if key = ascii ''__proto__'' then ascii ''[object Object]''
      else ascii ''function '' @ (if key = ascii ''constructor'' then ascii ''Object'' else key) @
           ascii ''() { [native code] }'')"

text \<open>
  \<^verbatim>\<open>table[key] || fallback\<close> inside a template literal, for a table whose own values are
  non-empty strings: every value found, own or inherited, is truthy.
\<close>

definition lookup_or :: "(jsstring \<times> jsstring) list \<Rightarrow> jsstring \<Rightarrow> jsstring \<Rightarrow> jsstring" where
  "lookup_or table key fallback =
     (case map_of table key of
        Some v \<Rightarrow> v
      | None \<Rightarrow> if key \<in> set object_prototype_keys then inherited_text key else fallback)"

section \<open>The external store and the HTTP outcome\<close>

text \<open>
  The server keeps its state in two tables of a hosted database that it reaches through
  a query client: \<open>users\<close> (one row per user id) and \<open>recipe_usage\<close> (one row per pair
  of identifier and date, the pair being declared unique in \<^verbatim>\<open>database-schema.sql\<close>).
  The model passes the tables explicitly. Timestamps are the clock reading in
  milliseconds; a column that may be \<^verbatim>\<open>NULL\<close> is an option.
\<close>

record user_row =
  subscription_status :: string
  subscription_tier :: string
  subscription_start_date :: "nat option"
  subscription_end_date :: "nat option"
  updated_at :: "nat option"

record usage_row =
  count :: "int option"
  usage_user_id :: "string option"

record db =
  users :: "string \<rightharpoonup> user_row"
  recipe_usage :: "string \<times> string \<rightharpoonup> usage_row"

text \<open>
  A query resolves to an object with the fields \<open>data\<close> and \<open>error\<close>; a query that fails
  is reported in \<open>error\<close>, with a code, and this is where the code looks for a failure
  of every query whose reply it reads. The middleware also has \<^verbatim>\<open>catch\<close> blocks, for
  whatever may throw inside them. So every query of the model takes the fault to inject:
  none, an error reply carrying a code, or a throw.
\<close>

datatype fault = ErrorReply string | Throws

record 'a reply =
  data :: "'a option"
  error :: "string option"

datatype thrown = Thrown

text \<open>\<^verbatim>\<open>.select(...).eq(...).single()\<close>: exactly one row, or the error \<^verbatim>\<open>PGRST116\<close>.\<close>

definition single :: "fault option \<Rightarrow> 'a option \<Rightarrow> thrown + 'a reply" where
  "single f row =
     (case f of
        Some Throws \<Rightarrow> Inl Thrown
      | Some (ErrorReply c) \<Rightarrow> Inr \<lparr>data = None, error = Some c\<rparr>
      | None \<Rightarrow>
          (case row of
             None \<Rightarrow> Inr \<lparr>data = None, error = Some ''PGRST116''\<rparr>
           | Some r \<Rightarrow> Inr \<lparr>data = Some r, error = None\<rparr>))"

text \<open>
  A write (\<^verbatim>\<open>update\<close> or \<^verbatim>\<open>insert\<close>) whose reply the caller does not look at: with
  no fault the table changes, with an error reply it does not and the caller goes on,
  with a throw control leaves the caller's \<^verbatim>\<open>try\<close> block.
\<close>

definition write_unchecked :: "fault option \<Rightarrow> db \<Rightarrow> db \<Rightarrow> thrown + db" where
  "write_unchecked f before after =
     (case f of
        None \<Rightarrow> Inr after
      | Some (ErrorReply c) \<Rightarrow> Inr before
      | Some Throws \<Rightarrow> Inl Thrown)"

datatype json =
  JStr string | JNum int | JBool bool | JArr "json list" | JObj "(string \<times> json) list"

record ratelimit_headers =
  x_ratelimit_remaining :: int
  x_ratelimit_limit :: int
  x_ratelimit_reset :: nat

text \<open>
  A middleware either answers the request (\<open>Respond status body\<close>) or hands it to the
  next handler (\<open>Next\<close>, with the rate-limit headers it has set on the response, if any).
\<close>

datatype outcome = Respond nat json | Next "ratelimit_headers option"

section \<open>The recipe-generation limiter (src/middleware/rateLimiter.js)\<close>

record request =
  user_id :: "string option"
  ip :: string

record env =
  today :: string
  now :: nat
  user_read_fault :: "fault option"
  usage_read_fault :: "fault option"
  usage_write_fault :: "fault option"

text \<open>JavaScript truthiness of \<^verbatim>\<open>req.user?.id\<close>: undefined and the empty string are falsy.\<close>

fun truthy :: "string option \<Rightarrow> bool" where
  "truthy None = False"
| "truthy (Some s) = (s \<noteq> [])"

text \<open>\<^verbatim>\<open>const identifier = userId || ipAddress\<close>\<close>

definition identifier_of :: "request \<Rightarrow> string" where
  "identifier_of req = (if truthy (user_id req) then the (user_id req) else ip req)"

definition maxFreeRecipes :: int where
  "maxFreeRecipes = 3"

definition internal_server_error :: outcome where
  "internal_server_error = Respond 500 (JObj [(''error'', JStr ''Internal server error'')])"

definition limit_reached :: "int \<Rightarrow> outcome" where
  "limit_reached currentCount =
     Respond 429 (JObj
       [(''error'', JStr ''Daily recipe limit reached''),
        (''message'', JStr ''You have reached your daily limit of 3 free recipes. Please upgrade to Premium for unlimited recipes.''),
        (''limit'', JNum maxFreeRecipes),
        (''current'', JNum currentCount),
        (''upgradeUrl'', JStr ''/membership'')])"

definition is_premium :: "user_row option \<Rightarrow> bool" where
  "is_premium u =
     (case u of
        None \<Rightarrow> False
      | Some r \<Rightarrow> subscription_status r = ''active'' \<and> subscription_tier r = ''premium'')"

text \<open>
  Lines 29 to 46: the premium check. The result is \<open>Inl Thrown\<close> when the query throws,
  \<open>Inr (Some out)\<close> when the middleware returns \<open>out\<close> here, and \<open>Inr None\<close> when control
  falls through to the daily count.
\<close>

definition check_premium :: "env \<Rightarrow> request \<Rightarrow> db \<Rightarrow> thrown + outcome option" where
  "check_premium e req d =
     (if truthy (user_id req) then
        (case single (user_read_fault e) (users d (the (user_id req))) of
           Inl t \<Rightarrow> Inl t
         | Inr r \<Rightarrow>
             if error r \<noteq> None then Inr (Some internal_server_error)
             else if is_premium (data r) then Inr (Some (Next None))
             else Inr None)
      else Inr None)"

text \<open>\<^verbatim>\<open>usageRecord?.count || 0\<close>: a missing row, a \<^verbatim>\<open>NULL\<close> count and a zero count all give 0.\<close>

definition currentCount_of :: "usage_row option \<Rightarrow> int" where
  "currentCount_of r =
     (case r of
        None \<Rightarrow> 0
      | Some u \<Rightarrow> (case count u of None \<Rightarrow> 0 | Some c \<Rightarrow> c))"

text \<open>
  The two writes. \<^verbatim>\<open>update({count}).eq(identifier).eq(date)\<close> changes the rows that
  match, so none when there is no row; \<^verbatim>\<open>insert\<close> adds a row unless the pair of
  identifier and date is taken (the table declares it unique), and then the store refuses.
\<close>

definition update_count :: "db \<Rightarrow> string \<times> string \<Rightarrow> int \<Rightarrow> db" where
  "update_count d key c =
     (case recipe_usage d key of
        None \<Rightarrow> d
      | Some row \<Rightarrow> d\<lparr>recipe_usage := (recipe_usage d)(key \<mapsto> row\<lparr>count := Some c\<rparr>)\<rparr>)"

definition insert_usage :: "db \<Rightarrow> string \<times> string \<Rightarrow> usage_row \<Rightarrow> db" where
  "insert_usage d key row =
     (case recipe_usage d key of
        None \<Rightarrow> d\<lparr>recipe_usage := (recipe_usage d)(key \<mapsto> row)\<rparr>
      | Some old \<Rightarrow> d)"

text \<open>Lines 48 to 101: read the day's row, reject at the limit, otherwise write and admit.\<close>

definition count_and_admit :: "env \<Rightarrow> request \<Rightarrow> db \<Rightarrow> thrown + outcome \<times> db" where
  "count_and_admit e req d =
     (let key = (identifier_of req, today e) in
      case single (usage_read_fault e) (recipe_usage d key) of
        Inl t \<Rightarrow> Inl t
      | Inr r \<Rightarrow>
          if error r \<noteq> None \<and> error r \<noteq> Some ''PGRST116'' then Inr (internal_server_error, d)
          else
            let currentCount = currentCount_of (data r) in
            if currentCount \<ge> maxFreeRecipes then Inr (limit_reached currentCount, d)
            else
              let after =
                (case data r of
                   Some usageRecord \<Rightarrow> update_count d key (currentCount + 1)
                 | None \<Rightarrow>
                     insert_usage d key \<lparr>count = Some 1, usage_user_id = user_id req\<rparr>)
              in
              (case write_unchecked (usage_write_fault e) d after of
                 Inl t \<Rightarrow> Inl t
               | Inr d' \<Rightarrow>
                   Inr (Next (Some \<lparr>x_ratelimit_remaining = maxFreeRecipes - currentCount - 1,
                                    x_ratelimit_limit = maxFreeRecipes,
                                    x_ratelimit_reset = now e + 24 * 60 * 60 * 1000\<rparr>), d')))"

text \<open>The whole middleware: the \<^verbatim>\<open>try\<close> block, and the \<^verbatim>\<open>catch\<close> that answers 500.\<close>

definition recipeGenerationLimiter :: "env \<Rightarrow> request \<Rightarrow> db \<Rightarrow> outcome \<times> db" where
  "recipeGenerationLimiter e req d =
     (case check_premium e req d of
        Inl t \<Rightarrow> (internal_server_error, d)
      | Inr (Some out) \<Rightarrow> (out, d)
      | Inr None \<Rightarrow>
          (case count_and_admit e req d of
             Inl t \<Rightarrow> (internal_server_error, d)
           | Inr r \<Rightarrow> r))"

section \<open>The route POST /generate-recipe (src/unnamed/part_000)\<close>

text \<open>
  The route runs \<^verbatim>\<open>optionalAuth\<close>, \<^verbatim>\<open>recipeGenerationLimiter\<close>, the validation
  chains and the handler, in this order (lines 44 to 57). \<^verbatim>\<open>optionalAuth\<close> always calls
  \<^verbatim>\<open>next\<close>; what it leaves in \<^verbatim>\<open>req.user\<close> is the \<open>user_id\<close> of the request.
  A field of the JSON body is absent, a string, or a value that is not a string.
\<close>

datatype jsvalue = Undefined | Str jsstring | NotAString

record recipe_body =
  body_ingredients :: jsvalue
  body_cuisine :: jsvalue
  body_cookingTime :: jsvalue
  body_dietary :: jsvalue
  body_skillLevel :: jsvalue

text \<open>
  Lines 16 to 41. \<open>ingredients\<close> must be a string of 3 to 500 characters; the length is
  measured by the validation library and is the parameter \<open>len\<close>. The other four are
  optional: an absent field passes, a present one must be a string of the list.
\<close>

definition is_string_of_length :: "(jsstring \<Rightarrow> nat) \<Rightarrow> nat \<Rightarrow> nat \<Rightarrow> jsvalue \<Rightarrow> bool" where
  "is_string_of_length len lo hi v =
     (case v of Str s \<Rightarrow> lo \<le> len s \<and> len s \<le> hi | Undefined \<Rightarrow> False | NotAString \<Rightarrow> False)"

definition optional_string_in :: "jsstring list \<Rightarrow> jsvalue \<Rightarrow> bool" where
  "optional_string_in allowed v =
     (case v of Undefined \<Rightarrow> True | Str s \<Rightarrow> s \<in> set allowed | NotAString \<Rightarrow> False)"

text \<open>
  The fields whose chain reports an error. The entries of the \<open>details\<close> array of the
  answer are rendered by the library, one for each failure; the model keeps the field.
\<close>

definition recipeValidation :: "(jsstring \<Rightarrow> nat) \<Rightarrow> recipe_body \<Rightarrow> string list" where
  "recipeValidation len b =
     (if is_string_of_length len 3 500 (body_ingredients b) then [] else [''ingredients'']) @
     (if optional_string_in
           (map ascii [''korean'', ''italian'', ''asian'', ''mexican'', ''american'',
                       ''mediterranean'', ''indian'', ''french'', ''''])
           (body_cuisine b) then [] else [''cuisine'']) @
     (if optional_string_in (map ascii [''quick'', ''medium'', ''long'', ''extended'', ''''])
           (body_cookingTime b) then [] else [''cookingTime'']) @
     (if optional_string_in
           (map ascii [''vegetarian'', ''vegan'', ''gluten-free'', ''low-carb'', ''keto'',
                       ''high-protein'', ''''])
           (body_dietary b) then [] else [''dietary'']) @
     (if optional_string_in (map ascii [''beginner'', ''intermediate'', ''advanced''])
           (body_skillLevel b) then [] else [''skillLevel''])"

definition validation_failed :: "string list \<Rightarrow> outcome" where
  "validation_failed errors =
     Respond 400 (JObj [(''error'', JStr ''Validation failed''), (''details'', JArr (map JStr errors))])"

text \<open>
  The route. \<open>generate\<close> stands for the handler after its validation check (lines 59 to
  149): the call of the completion API and the answer built from it.
\<close>

definition generate_recipe_route ::
  "(jsstring \<Rightarrow> nat) \<Rightarrow> (recipe_body \<Rightarrow> outcome) \<Rightarrow> env \<Rightarrow> request \<Rightarrow> recipe_body \<Rightarrow> db
     \<Rightarrow> outcome \<times> db" where
  "generate_recipe_route len generate e req b d =
     (case recipeGenerationLimiter e req d of
        (Respond st js, d') \<Rightarrow> (Respond st js, d')
      | (Next h, d') \<Rightarrow>
          if recipeValidation len b \<noteq> [] then (validation_failed (recipeValidation len b), d')
          else (generate b, d'))"

section \<open>The subscription webhook (lines 901 to 1081 of src/README.md)\<close>

text \<open>
  The object of an event, as far as the handlers read it: a checkout session, a
  subscription or an invoice. \<open>metadata\<close> is \<open>None\<close> when the object has no such property,
  and reading a key of it then throws. Times of the provider are seconds.
\<close>

record stripe_object =
  object_id :: string
  metadata :: "(string \<times> string) list option"
  status :: string
  created :: nat
  current_period_end :: nat
  subscription :: string

record stripe_event =
  event_type :: string
  event_id :: string
  event_object :: stripe_object

text \<open>
  A call of the endpoint, as the application receives it: whether it has a body of
  content type \<^verbatim>\<open>application/json\<close> (the provider's calls do), the bytes of the body,
  and the \<^verbatim>\<open>stripe-signature\<close> header.
\<close>

record webhook_request =
  is_json :: bool
  raw_body :: string
  signature :: "string option"

text \<open>
  What the body of the request has become when a middleware or the handler reads
  \<^verbatim>\<open>req.body\<close>: the bytes as they came, or an object made from them by a parser (the
  empty object when no parser took the body). \<open>body_read\<close> is the mark \<^verbatim>\<open>req._body\<close>
  that a body parser leaves for the parsers after it.
\<close>

datatype payload = Bytes string | Object

record parsed_request =
  body :: payload
  body_read :: bool

text \<open>
  What the application gets from outside: the clock; the JSON parser (the status and
  the message of the error it raises, 400 for a text that is not JSON and 413 for a body
  over the limit, or \<open>None\<close> when it makes an object of the text); the provider's library
  (\<open>verify\<close> is its signature check on the bytes that were signed: the event, or the
  message of the error it throws; \<open>object_refused\<close> is the message of the error it throws
  when it is handed an object; \<^verbatim>\<open>subscriptions.retrieve\<close> returns a subscription or
  throws); the fault of the \<open>users\<close> update; and the numbers of calls that the two
  rate-limit middlewares have counted for this client in their running windows, this
  one included.
\<close>

record webhook_env =
  clock :: nat
  parse_error :: "string \<Rightarrow> (nat \<times> string) option"
  verify :: "string \<Rightarrow> string option \<Rightarrow> string + stripe_event"
  object_refused :: string
  retrieve :: "string \<Rightarrow> thrown + stripe_object"
  users_write_fault :: "fault option"
  api_hits :: nat
  hits :: nat

text \<open>
  \<^verbatim>\<open>app.use(express.json({ limit: '10mb' }))\<close>, line 45 of \<^verbatim>\<open>server.js\<close>, runs for
  every request before any route. It takes a body of content type
  \<^verbatim>\<open>application/json\<close>: when the text parses, \<^verbatim>\<open>req.body\<close> is the object and the
  body is marked as read; when it does not, the error goes to the error handler. It
  leaves any other request with the empty object. (The parser of line 46 takes
  form-encoded bodies and makes an object of them too.)
\<close>

definition express_json ::
  "webhook_env \<Rightarrow> webhook_request \<Rightarrow> nat \<times> string + parsed_request" where
  "express_json w req =
     (if is_json req then
        (case parse_error w (raw_body req) of
           Some err \<Rightarrow> Inl err
         | None \<Rightarrow> Inr \<lparr>body = Object, body_read = True\<rparr>)
      else Inr \<lparr>body = Object, body_read = False\<rparr>)"

text \<open>
  \<^verbatim>\<open>express.raw({ type: 'application/json' })\<close>, line 904 of \<^verbatim>\<open>README.md\<close>, the
  second middleware of the route: it passes a request whose body is marked as read, and
  otherwise puts the bytes of a body of content type \<^verbatim>\<open>application/json\<close> into
  \<^verbatim>\<open>req.body\<close>.
\<close>

definition express_raw :: "webhook_request \<Rightarrow> parsed_request \<Rightarrow> parsed_request" where
  "express_raw req p =
     (if body_read p then p
      else if is_json req then \<lparr>body = Bytes (raw_body req), body_read = True\<rparr>
      else p)"

text \<open>
  The error handler (\<^verbatim>\<open>src/unnamed/part_001\<close>) on the error of a body parser. Such an
  error has a status and a message and none of the names, codes and types that the
  handler looks for, so of its rewritings only the last can apply, the one for a message
  that includes \<^verbatim>\<open>supabase\<close>. (In development mode the answer has the stack as well.)
\<close>

fun text_includes :: "string \<Rightarrow> string \<Rightarrow> bool" where
  "text_includes [] sub = (sub = [])"
| "text_includes (x # xs) sub = (prefix sub (x # xs) \<or> text_includes xs sub)"

definition errorHandler :: "nat \<times> string \<Rightarrow> outcome" where
  "errorHandler err =
     (let (statusCode, message) =
            (if snd err \<noteq> [] \<and> text_includes (snd err) ''supabase''
             then (503, ''Database service temporarily unavailable'')
             else err)
      in Respond (if statusCode \<noteq> 0 then statusCode else 500)
           (JObj [(''success'', JBool False),
                  (''error'', JStr (if message \<noteq> [] then message else ''Server Error''))]))"

text \<open>
  \<^verbatim>\<open>rateLimiter\<close>, the general limiter of \<^verbatim>\<open>rateLimiter.js\<close>, lines 11 to 21, that
  line 61 of \<^verbatim>\<open>server.js\<close> puts in front of every route under \<^verbatim>\<open>/api\<close>: a hundred
  calls in fifteen minutes.
\<close>

definition rateLimiter :: "nat \<Rightarrow> outcome option" where
  "rateLimiter n =
     (if n > 100
      then Some (Respond 429 (JObj
             [(''error'', JStr ''Too many requests from this IP, please try again later.''),
              (''retryAfter'', JStr ''15 minutes'')]))
      else None)"

text \<open>
  \<^verbatim>\<open>stripe.webhooks.constructEvent(req.body, sig, secret)\<close>. The library checks the
  signature against the bytes that the provider signed. Handed the object that a parser
  has made of them, it throws: the signed material is gone.
\<close>

definition constructEvent :: "webhook_env \<Rightarrow> payload \<Rightarrow> string option \<Rightarrow> string + stripe_event" where
  "constructEvent w p sig =
     (case p of
        Bytes bytes \<Rightarrow> verify w bytes sig
      | Object \<Rightarrow> Inl (object_refused w))"

text \<open>\<^verbatim>\<open>webhookLimiter\<close> (rateLimiter.js, lines 108 to 115): ten calls a minute.\<close>

definition webhookLimiter :: "nat \<Rightarrow> outcome option" where
  "webhookLimiter n =
     (if n > 10 then Some (Respond 429 (JObj [(''error'', JStr ''Webhook rate limit exceeded'')]))
      else None)"

text \<open>\<^verbatim>\<open>object.metadata.key\<close>\<close>

definition metadata_key :: "stripe_object \<Rightarrow> string \<Rightarrow> thrown + string option" where
  "metadata_key obj k = (case metadata obj of None \<Rightarrow> Inl Thrown | Some m \<Rightarrow> Inr (map_of m k))"

text \<open>
  \<^verbatim>\<open>supabase.from('users').update(...).eq('id', userId)\<close>, its reply not looked at: the
  row of that id changes, if there is one.
\<close>

definition update_user ::
  "fault option \<Rightarrow> db \<Rightarrow> string option \<Rightarrow> (user_row \<Rightarrow> user_row) \<Rightarrow> thrown + db" where
  "update_user f d userId change =
     write_unchecked f d
       (case userId of
          None \<Rightarrow> d
        | Some u \<Rightarrow>
            (case users d u of
               None \<Rightarrow> d
             | Some row \<Rightarrow> d\<lparr>users := (users d)(u \<mapsto> change row)\<rparr>))"

text \<open>Each handler is one \<^verbatim>\<open>try\<close> block whose \<^verbatim>\<open>catch\<close> logs the error and returns.\<close>

definition log_and_swallow :: "db \<Rightarrow> thrown + db \<Rightarrow> thrown + db" where
  "log_and_swallow d r = (case r of Inl t \<Rightarrow> Inr d | Inr d' \<Rightarrow> Inr d')"

definition handleCheckoutSessionCompleted :: "webhook_env \<Rightarrow> stripe_object \<Rightarrow> db \<Rightarrow> thrown + db" where
  "handleCheckoutSessionCompleted w session d =
     log_and_swallow d
       (case metadata_key session ''userId'' of
          Inl t \<Rightarrow> Inl t
        | Inr userId \<Rightarrow>
            (case metadata_key session ''plan'' of
               Inl t \<Rightarrow> Inl t
             | Inr plan \<Rightarrow>
                 update_user (users_write_fault w) d userId
                   (\<lambda>row. row\<lparr>subscription_status := ''active'',
                               subscription_tier :=
                                 (case plan of None \<Rightarrow> subscription_tier row | Some p \<Rightarrow> p),
                               subscription_start_date := Some (clock w),
                               updated_at := Some (clock w)\<rparr>)))"

definition handleSubscriptionCreated :: "webhook_env \<Rightarrow> stripe_object \<Rightarrow> db \<Rightarrow> thrown + db" where
  "handleSubscriptionCreated w sub d =
     log_and_swallow d
       (case metadata_key sub ''userId'' of
          Inl t \<Rightarrow> Inl t
        | Inr userId \<Rightarrow>
            update_user (users_write_fault w) d userId
              (\<lambda>row. row\<lparr>subscription_status := ''active'',
                          subscription_tier := ''premium'',
                          subscription_start_date := Some (created sub * 1000),
                          subscription_end_date := Some (current_period_end sub * 1000),
                          updated_at := Some (clock w)\<rparr>))"

definition handleSubscriptionUpdated :: "webhook_env \<Rightarrow> stripe_object \<Rightarrow> db \<Rightarrow> thrown + db" where
  "handleSubscriptionUpdated w sub d =
     log_and_swallow d
       (case metadata_key sub ''userId'' of
          Inl t \<Rightarrow> Inl t
        | Inr userId \<Rightarrow>
            update_user (users_write_fault w) d userId
              (\<lambda>row. row\<lparr>subscription_status := status sub,
                          subscription_end_date := Some (current_period_end sub * 1000),
                          updated_at := Some (clock w)\<rparr>))"

definition handleSubscriptionDeleted :: "webhook_env \<Rightarrow> stripe_object \<Rightarrow> db \<Rightarrow> thrown + db" where
  "handleSubscriptionDeleted w sub d =
     log_and_swallow d
       (case metadata_key sub ''userId'' of
          Inl t \<Rightarrow> Inl t
        | Inr userId \<Rightarrow>
            update_user (users_write_fault w) d userId
              (\<lambda>row. row\<lparr>subscription_status := ''cancelled'',
                          subscription_tier := ''free'',
                          subscription_end_date := Some (clock w),
                          updated_at := Some (clock w)\<rparr>))"

definition handlePaymentSucceeded :: "webhook_env \<Rightarrow> stripe_object \<Rightarrow> db \<Rightarrow> thrown + db" where
  "handlePaymentSucceeded w invoice d =
     log_and_swallow d
       (case retrieve w (subscription invoice) of
          Inl t \<Rightarrow> Inl t
        | Inr sub \<Rightarrow>
            (case metadata_key sub ''userId'' of
               Inl t \<Rightarrow> Inl t
             | Inr userId \<Rightarrow>
                 update_user (users_write_fault w) d userId
                   (\<lambda>row. row\<lparr>subscription_status := ''active'',
                               subscription_end_date := Some (current_period_end sub * 1000),
                               updated_at := Some (clock w)\<rparr>)))"

definition handlePaymentFailed :: "webhook_env \<Rightarrow> stripe_object \<Rightarrow> db \<Rightarrow> thrown + db" where
  "handlePaymentFailed w invoice d =
     log_and_swallow d
       (case retrieve w (subscription invoice) of
          Inl t \<Rightarrow> Inl t
        | Inr sub \<Rightarrow>
            (case metadata_key sub ''userId'' of
               Inl t \<Rightarrow> Inl t
             | Inr userId \<Rightarrow> Inr d))"

text \<open>The \<^verbatim>\<open>switch\<close> of lines 920 to 947.\<close>

definition handle_event :: "webhook_env \<Rightarrow> stripe_event \<Rightarrow> db \<Rightarrow> thrown + db" where
  "handle_event w event d =
     (if event_type event = ''checkout.session.completed''
        then handleCheckoutSessionCompleted w (event_object event) d
      else if event_type event = ''customer.subscription.created''
        then handleSubscriptionCreated w (event_object event) d
      else if event_type event = ''customer.subscription.updated''
        then handleSubscriptionUpdated w (event_object event) d
      else if event_type event = ''customer.subscription.deleted''
        then handleSubscriptionDeleted w (event_object event) d
      else if event_type event = ''invoice.payment_succeeded''
        then handlePaymentSucceeded w (event_object event) d
      else if event_type event = ''invoice.payment_failed''
        then handlePaymentFailed w (event_object event) d
      else Inr d)"

text \<open>
  The handler of the route, lines 905 to 955: the inner \<^verbatim>\<open>try\<close> around the signature
  check answers 400, the outer \<^verbatim>\<open>catch\<close> answers 500.
\<close>

definition webhook_handler :: "webhook_env \<Rightarrow> payload \<Rightarrow> string option \<Rightarrow> db \<Rightarrow> outcome \<times> db" where
  "webhook_handler w req_body sig d =
     (case constructEvent w req_body sig of
        Inl message \<Rightarrow> (Respond 400 (JStr (''Webhook Error: '' @ message)), d)
      | Inr event \<Rightarrow>
          (case handle_event w event d of
             Inl t \<Rightarrow> (Respond 500 (JObj [(''error'', JStr ''Webhook processing failed'')]), d)
           | Inr d' \<Rightarrow> (Respond 200 (JObj [(''received'', JBool True)]), d')))"

text \<open>
  The route, lines 902 to 956, on a request that the application's parsers have left as
  \<open>p\<close>: the rate limit of the route, the raw-body parser, the handler.
\<close>

definition webhook_route ::
  "webhook_env \<Rightarrow> webhook_request \<Rightarrow> parsed_request \<Rightarrow> db \<Rightarrow> outcome \<times> db" where
  "webhook_route w req p d =
     (case webhookLimiter (hits w) of
        Some out \<Rightarrow> (out, d)
      | None \<Rightarrow> webhook_handler w (body (express_raw req p)) (signature req) d)"

text \<open>
  \<^verbatim>\<open>POST /api/subscription/webhook\<close> as the application of \<^verbatim>\<open>server.js\<close> serves it:
  the JSON parser of line 45, the general limiter of line 61, the route.
\<close>

definition post_webhook :: "webhook_env \<Rightarrow> webhook_request \<Rightarrow> db \<Rightarrow> outcome \<times> db" where
  "post_webhook w req d =
     (case express_json w req of
        Inl err \<Rightarrow> (errorHandler err, d)
      | Inr p \<Rightarrow>
          (case rateLimiter (api_hits w) of
             Some out \<Rightarrow> (out, d)
           | None \<Rightarrow> webhook_route w req p d))"

section \<open>The fallback recipe generator (class RecipeApp in server.js)\<close>

record nutrition_facts =
  calories :: jsstring
  protein :: jsstring
  carbs :: jsstring
  fat :: jsstring

record recipe =
  name :: jsstring
  description :: jsstring
  prepTime :: jsstring
  cookTime :: jsstring
  totalTime :: jsstring
  servings :: jsstring
  difficulty :: jsstring
  ingredients :: "jsstring list"
  instructions :: "jsstring list"
  tips :: "jsstring list"
  nutrition :: "nutrition_facts option"

text \<open>The values of the form; a field the user left alone is the empty string.\<close>

record formData =
  fd_ingredients :: jsstring
  cuisine :: jsstring
  cookingTime :: jsstring
  dietary :: jsstring
  skillLevel :: jsstring

record templates =
  korean :: "recipe list"
  italian :: "recipe list"
  asian :: "recipe list"
  mexican :: "recipe list"
  default' :: "recipe list"

text \<open>\<^verbatim>\<open>parseIngredients\<close>, lines 323 to 329.\<close>

definition parseIngredients :: "(jsstring \<Rightarrow> jsstring) \<Rightarrow> jsstring \<Rightarrow> jsstring list" where
  "parseIngredients lc ingredientsString =
     filter (\<lambda>ingredient. length ingredient > 0) (map trim (split_items (lc ingredientsString)))"

text \<open>
  \<^verbatim>\<open>findBestMatchingRecipe\<close>, lines 331 to 359. \<open>allRecipes\<close> spreads four of the five
  categories. The score of a template is the number of user ingredients that its joined,
  lower-cased ingredient text includes. \<open>best_match\<close> is the \<^verbatim>\<open>forEach\<close> loop over the
  pair \<open>(bestMatch, bestScore)\<close>. \<^verbatim>\<open>allRecipes[0]\<close> of an empty array is undefined, so the
  result is an option.
\<close>

definition allRecipes :: "templates \<Rightarrow> recipe list" where
  "allRecipes recipes = korean recipes @ italian recipes @ asian recipes @ default' recipes"

definition score :: "(jsstring \<Rightarrow> jsstring) \<Rightarrow> jsstring list \<Rightarrow> recipe \<Rightarrow> nat" where
  "score lc userIngredients r =
     (let recipeIngredients = lc (join_space (ingredients r))
      in length (filter (\<lambda>userIngredient. js_includes recipeIngredients userIngredient) userIngredients))"

fun best_match ::
  "(jsstring \<Rightarrow> jsstring) \<Rightarrow> jsstring list \<Rightarrow> recipe list \<Rightarrow> recipe \<times> nat \<Rightarrow> recipe \<times> nat" where
  "best_match lc userIngredients [] best = best"
| "best_match lc userIngredients (r # rs) (bestMatch, bestScore) =
     (if score lc userIngredients r > bestScore
      then best_match lc userIngredients rs (r, score lc userIngredients r)
      else best_match lc userIngredients rs (bestMatch, bestScore))"

definition findBestMatchingRecipe ::
  "(jsstring \<Rightarrow> jsstring) \<Rightarrow> jsstring list \<Rightarrow> templates \<Rightarrow> recipe option" where
  "findBestMatchingRecipe lc userIngredients recipes =
     (case allRecipes recipes of
        [] \<Rightarrow> None
      | first # rest \<Rightarrow> Some (fst (best_match lc userIngredients (allRecipes recipes) (first, 0))))"

text \<open>
  \<^verbatim>\<open>customizeRecipe\<close>, lines 672 to 739, in the order of the source. First the user's
  ingredients, lines 676 to 689: each one is tested against the working list, which
  already holds the entries pushed for the ingredients before it, and is pushed with the
  amount marker (a space and the three syllables of line 687) when no entry matches it
  and it is longer than two code units.
\<close>

definition amount_marker :: jsstring where
  "amount_marker = [32, 51201, 45817, 47049]"

definition isAlreadyIncluded :: "(jsstring \<Rightarrow> jsstring) \<Rightarrow> jsstring list \<Rightarrow> jsstring \<Rightarrow> bool" where
  "isAlreadyIncluded lc customizedIngredients userIngredient =
     list_ex (\<lambda>ingredient.
        js_includes (lc ingredient) userIngredient \<or>
        js_includes userIngredient (first_word (lc ingredient))) customizedIngredients"

fun add_user_ingredients ::
  "(jsstring \<Rightarrow> jsstring) \<Rightarrow> jsstring list \<Rightarrow> jsstring list \<Rightarrow> jsstring list" where
  "add_user_ingredients lc customizedIngredients [] = customizedIngredients"
| "add_user_ingredients lc customizedIngredients (userIngredient # rest) =
     add_user_ingredients lc
       (if \<not> isAlreadyIncluded lc customizedIngredients userIngredient \<and> length userIngredient > 2
        then customizedIngredients @ [userIngredient @ amount_marker]
        else customizedIngredients)
       rest"

text \<open>Lines 691 to 706: the three time fields of each cooking-time bucket.\<close>

definition timeAdjustments :: "(jsstring \<times> jsstring \<times> jsstring \<times> jsstring) list" where
  "timeAdjustments =
     [(ascii ''quick'', [53, 48516], [49, 48, 48516], [49, 53, 48516]),
      (ascii ''medium'', [49, 48, 48516], [50, 48, 48516], [51, 48, 48516]),
      (ascii ''long'', [49, 53, 48516], [52, 53, 48516], [54, 48, 48516]),
      (ascii ''extended'', [51, 48, 48516], [57, 48, 48516], [49, 50, 48, 48516])]"

definition adjust_time :: "recipe \<Rightarrow> jsstring \<Rightarrow> recipe" where
  "adjust_time r bucket =
     (if bucket \<noteq> [] then
        (case map_of timeAdjustments bucket of
           Some (prep, cook, tot) \<Rightarrow> r\<lparr>prepTime := prep, cookTime := cook, totalTime := tot\<rparr>
         | None \<Rightarrow> r)
      else r)"

text \<open>
  \<^verbatim>\<open>applyDietaryRestrictions\<close>, lines 741 to 795. Each restriction has its pairs of a
  term and its substitute, in the order of the source, and a list \<open>avoid\<close> that no code
  reads. Every pair in turn goes over the whole list, replacing in each ingredient that
  includes the term. The returned recipe has the new list and the restriction in
  parentheses after the name.
\<close>

definition restrictions :: "(jsstring \<times> (jsstring \<times> jsstring) list \<times> jsstring list) list" where
  "restrictions =
     [(ascii ''vegetarian'',
       [([45805, 44032, 49844, 49332], [46160, 48512]),
        ([46076, 51648, 44256, 44592], [48260, 49455]),
        ([49632, 44256, 44592], [53097, 44256, 44592])],
       [[44256, 44592], [49373, 49440], [49352, 50864]]),
      (ascii ''vegan'',
       [([45804, 44096], [50500, 53216, 50500, 54028, 48148]),
        ([50864, 50976], [46160, 50976]),
        ([48260, 53552], [50732, 47532, 48652, 50724, 51068]),
        ([52824, 51592], [50689, 50577, 54952, 47784])],
       [[44256, 44592], [49373, 49440], [45804, 44096], [50976, 51228, 54408]]),
      (ascii ''gluten-free'',
       [([48128, 44032, 47336], [49920, 44032, 47336]),
        ([47732], [49920, 47732]),
        ([48757], [49920, 48757])],
       [[48128, 44032, 47336], [44544, 47336, 53584]]),
      (ascii ''keto'',
       [([49920], [53084, 47532, 54540, 46972, 50892, 32, 46972, 51060, 49828]),
        ([44048, 51088], [47924]),
        ([49444, 53461], [49828, 53580, 48708, 50500])],
       [[49920], [47732], [44048, 51088], [49444, 53461]])]"

definition replace_in_all :: "jsstring list \<Rightarrow> jsstring \<times> jsstring \<Rightarrow> jsstring list" where
  "replace_in_all modifiedIngredients pair =
     map (\<lambda>ingredient.
        if js_includes ingredient (fst pair) then js_replace (fst pair) (snd pair) ingredient
        else ingredient) modifiedIngredients"

definition applyDietaryRestrictions :: "recipe \<Rightarrow> jsstring \<Rightarrow> recipe" where
  "applyDietaryRestrictions r dietary_value =
     (case map_of restrictions dietary_value of
        None \<Rightarrow> r
      | Some (replace_pairs, avoid) \<Rightarrow>
          r\<lparr>ingredients := foldl replace_in_all (ingredients r) replace_pairs,
            name := name r @ ascii '' ('' @ dietary_value @ ascii '')''\<rparr>)"

text \<open>\<^verbatim>\<open>adjustDifficulty\<close>, lines 797 to 804.\<close>

definition levelMap :: "(jsstring \<times> jsstring) list" where
  "levelMap =
     [(ascii ''beginner'', ascii ''easy''),
      (ascii ''intermediate'', ascii ''medium''),
      (ascii ''advanced'', ascii ''hard'')]"

definition adjustDifficulty :: "jsstring \<Rightarrow> jsstring \<Rightarrow> jsstring" where
  "adjustDifficulty currentDifficulty skill =
     (case map_of levelMap skill of Some d \<Rightarrow> d | None \<Rightarrow> currentDifficulty)"

text \<open>
  The marker step, lines 718 to 733. The pattern of line 719 is a character class written
  without the \<^verbatim>\<open>u\<close> flag, so its members are the eighteen code units of the nine emoji
  between the brackets, and a name matches when any one of its code units is among them.
  A name that does not match gets what line 731 finds for the cuisine, and a space, in
  front: the emoji of the cuisine, the frying pan when the table has nothing under that
  name, and the text of the inherited value when the name is one of
  \<^verbatim>\<open>Object.prototype\<close>.
\<close>

definition frying_pan :: jsstring where
  "frying_pan = [55356, 57203]"

definition marker_emojis :: "jsstring list" where
  "marker_emojis =
     [[55356, 57203], [55356, 57181], [55356, 57178], [55356, 57180], [55356, 57134],
      [55356, 57172], [55358, 56665], [55356, 57179], [55358, 56656]]"

definition marker_class :: "nat list" where
  "marker_class = concat marker_emojis"

definition name_matches :: "jsstring \<Rightarrow> bool" where
  "name_matches nm = list_ex (\<lambda>c. c \<in> set marker_class) nm"

definition cuisineEmojis :: "(jsstring \<times> jsstring) list" where
  "cuisineEmojis =
     [(ascii ''korean'', [55356, 57178]),
      (ascii ''italian'', [55356, 57181]),
      (ascii ''asian'', [55356, 57180]),
      (ascii ''mexican'', [55356, 57134]),
      (ascii ''american'', [55356, 57172]),
      (ascii ''mediterranean'', [55358, 56665]),
      (ascii ''indian'', [55356, 57179]),
      (ascii ''french'', [55358, 56656])]"

definition cuisine_emoji :: "jsstring \<Rightarrow> jsstring" where
  "cuisine_emoji c = lookup_or cuisineEmojis c frying_pan"

definition cuisine_marker_step :: "jsstring \<Rightarrow> jsstring \<Rightarrow> jsstring" where
  "cuisine_marker_step c nm = (if \<not> name_matches nm then cuisine_emoji c @ 32 # nm else nm)"

text \<open>
  The whole of \<^verbatim>\<open>customizeRecipe\<close>. The object it returns spreads the customized
  recipe and then sets \<open>ingredients\<close> to the working list of lines 676 to 689.

  The tables of lines 693, 742 and 798 are read here under the names they define and
  under names that \<^verbatim>\<open>Object.prototype\<close> does not define. Under one that it defines the
  source finds the inherited value: it sets the three times to \<^verbatim>\<open>undefined\<close>, it takes
  the inherited function for the difficulty, and for the restriction it throws on line
  783, where the inherited value has no \<^verbatim>\<open>replace\<close> to go through, so that
  \<^verbatim>\<open>customizeRecipe\<close> returns nothing. Statements about what it returns are made for
  a restriction that is not such a name.
\<close>

definition customizeRecipe ::
  "(jsstring \<Rightarrow> jsstring) \<Rightarrow> recipe \<Rightarrow> formData \<Rightarrow> jsstring list \<Rightarrow> recipe" where
  "customizeRecipe lc r fd userIngredients =
     (let customizedIngredients = add_user_ingredients lc (ingredients r) userIngredients;
          r1 = adjust_time r (cookingTime fd);
          r2 = (if dietary fd \<noteq> [] then applyDietaryRestrictions r1 (dietary fd) else r1);
          r3 = (if skillLevel fd \<noteq> []
                then r2\<lparr>difficulty := adjustDifficulty (difficulty r2) (skillLevel fd)\<rparr>
                else r2);
          r4 = r3\<lparr>name := cuisine_marker_step (cuisine fd) (name r3)\<rparr>
      in r4\<lparr>ingredients := customizedIngredients\<rparr>)"

section \<open>enhanceRecipe (src/unnamed/part_000, lines 258 to 299)\<close>

text \<open>
  The recipe parsed from the reply of the completion API: a key may be missing. The
  object literal of lines 260 to 278 gives each key a default and then spreads the
  parsed recipe over it, so a key that is present keeps its value. The model covers
  replies whose present keys have the expected type.
\<close>

record parsed_recipe =
  p_name :: "jsstring option"
  p_description :: "jsstring option"
  p_prepTime :: "jsstring option"
  p_cookTime :: "jsstring option"
  p_totalTime :: "jsstring option"
  p_servings :: "jsstring option"
  p_difficulty :: "jsstring option"
  p_ingredients :: "jsstring list option"
  p_instructions :: "jsstring list option"
  p_tips :: "jsstring list option"
  p_nutrition :: "nutrition_facts option"

record enhance_options =
  o_cuisine :: "jsstring option"
  o_dietary :: "jsstring option"
  o_skillLevel :: "jsstring option"

definition or_default :: "'a option \<Rightarrow> 'a \<Rightarrow> 'a" where
  "or_default v dflt = (case v of None \<Rightarrow> dflt | Some x \<Rightarrow> x)"

text \<open>
  The file holds the non-ASCII string literals of this function in a doubly encoded
  form, and the program works with the strings as the file holds them. They are written
  here code point by code point. Every emoji literal of lines 283 to 294 begins with the
  two code points 240 and 376; the literal of \<open>italian\<close>, which is also the second string
  that line 293 looks for, consists of these two alone.
\<close>

definition enhance_cuisineEmojis :: "(jsstring \<times> jsstring) list" where
  "enhance_cuisineEmojis =
     [(ascii ''korean'', [240, 376, 353]),
      (ascii ''italian'', [240, 376]),
      (ascii ''asian'', [240, 376, 339]),
      (ascii ''mexican'', [240, 376, 338, 174]),
      (ascii ''american'', [240, 376, 8221]),
      (ascii ''mediterranean'', [240, 376, 165, 8482]),
      (ascii ''indian'', [240, 376, 8250]),
      (ascii ''french'', [240, 376, 165])]"

definition enhance_default_emoji :: jsstring where
  "enhance_default_emoji = [240, 376, 179]"

definition enhance_emoji :: "jsstring \<Rightarrow> jsstring" where
  "enhance_emoji c = lookup_or enhance_cuisineEmojis c enhance_default_emoji"

text \<open>Lines 280 to 296: nothing happens unless a cuisine was chosen.\<close>

definition enhance_marker_step :: "jsstring option \<Rightarrow> jsstring \<Rightarrow> jsstring" where
  "enhance_marker_step c nm =
     (case c of
        None \<Rightarrow> nm
      | Some cu \<Rightarrow>
          if cu \<noteq> [] then
            (if \<not> js_includes nm [240, 376, 179] \<and> \<not> js_includes nm [240, 376]
             then enhance_emoji cu @ 32 # nm
             else nm)
          else nm)"

definition enhanceRecipe :: "parsed_recipe \<Rightarrow> enhance_options \<Rightarrow> recipe" where
  "enhanceRecipe r opts =
     (let enhanced =
        \<lparr>name = or_default (p_name r) (ascii ''Delicious Recipe''),
         description =
           or_default (p_description r) (ascii ''A wonderful dish made with fresh ingredients''),
         prepTime = or_default (p_prepTime r) [49, 48, 235, 182, 8222],
         cookTime = or_default (p_cookTime r) [50, 48, 235, 182, 8222],
         totalTime = or_default (p_totalTime r) [51, 48, 235, 182, 8222],
         servings = or_default (p_servings r) [50, 45, 51, 236, 184, 235, 182, 8222],
         difficulty = or_default (p_difficulty r) (ascii ''easy''),
         ingredients = or_default (p_ingredients r) [],
         instructions = or_default (p_instructions r) [],
         tips = or_default (p_tips r) [],
         nutrition =
           Some (or_default (p_nutrition r)
             \<lparr>calories = [236, 8226, 189, 32, 52, 48, 48, 107, 99, 97, 108],
              protein = ascii ''20g'', carbs = ascii ''45g'', fat = ascii ''15g''\<rparr>)\<rparr>
      in enhanced\<lparr>name := enhance_marker_step (o_cuisine opts) (name enhanced)\<rparr>)"

text \<open>The template of \<^verbatim>\<open>korean\<close> that starts at line 365 of \<^verbatim>\<open>server.js\<close>.\<close>

definition kimchi_fried_rice :: recipe where
  "kimchi_fried_rice =
     \<lparr>name = [44608, 52824, 48374, 51020, 48165],
      description = [47588, 53092, 54616, 44256, 32, 44256, 49548, 54620, 32, 54620, 44397,
       51032, 32, 45824, 54364, 32, 48374, 51020, 48165],
      prepTime = [49, 48, 48516],
      cookTime = [49, 53, 48516],
      totalTime = [50, 53, 48516],
      servings = [50, 51064, 48516],
      difficulty = ascii ''easy'',
      ingredients =
         [[48165, 32, 50, 44277, 44592],
          [44608, 52824, 32, 49, 52981],
          [46076, 51648, 44256, 44592, 32, 49, 48, 48, 103],
          [45804, 44096, 32, 50, 44060],
          [54028, 32, 50, 45824],
          [47560, 45720, 32, 50, 51901],
          [52280, 44592, 47492, 32, 49, 53360, 49696],
          [44036, 51109, 32, 49, 53360, 49696]],
      instructions =
         [[54060, 50640, 32, 44592, 47492, 51012, 32, 46160, 47476, 44256, 32, 46076, 51648,
          44256, 44592, 47484, 32, 48374, 50500, 51469, 45768, 45796],
          [44608, 52824, 47484, 32, 45347, 44256, 32, 54632, 44760, 32, 48374, 50500, 51469,
          45768, 45796],
          [48165, 51012, 32, 45347, 44256, 32, 51096, 32, 49438, 50612, 44032, 47728, 32,
          48374, 50500, 51469, 45768, 45796],
          [44036, 51109, 51004, 47196, 32, 44036, 51012, 32, 47582, 52628, 44256, 32, 54028,
          47484, 32, 45347, 49845, 45768, 45796],
          [45804, 44096, 51012, 32, 54400, 50612, 49436, 32, 45347, 44256, 32, 44264, 44256,
          47336, 32, 49438, 50612, 51469, 45768, 45796],
          [52280, 44592, 47492, 51012, 32, 45347, 44256, 32, 47560, 47924, 47532, 54633,
          45768, 45796]],
      tips =
         [[44608, 52824, 45716, 32, 51096, 32, 51061, 51008, 32, 44163, 51012, 32, 49324,
          50857, 54616, 49464, 50836],
          [48165, 51008, 32, 52264, 44032, 50868, 32, 48165, 51012, 32, 49324, 50857, 54616,
          47732, 32, 45908, 32, 47579, 51080, 49845, 45768, 45796]],
      nutrition = Some
         \<lparr>calories = [50557, 32, 53, 50, 48, 107, 99, 97, 108],
          protein = ascii ''25g'', carbs = ascii ''65g'', fat = ascii ''18g''\<rparr>\<rparr>"

text \<open>The template of \<^verbatim>\<open>korean\<close> that starts at line 402 of \<^verbatim>\<open>server.js\<close>.\<close>

definition doenjang_stew :: recipe where
  "doenjang_stew =
     \<lparr>name = [46108, 51109, 52236, 44060],
      description = [44396, 49688, 54616, 44256, 32, 51652, 54620, 32, 46108, 51109, 51032,
       32, 47579],
      prepTime = [49, 53, 48516],
      cookTime = [50, 48, 48516],
      totalTime = [51, 53, 48516],
      servings = [51, 45, 52, 51064, 48516],
      difficulty = ascii ''easy'',
      ingredients =
         [[46108, 51109, 32, 51, 53360, 49696],
          [46160, 48512, 32, 49, 47, 50, 47784],
          [44048, 51088, 32, 49, 44060],
          [50577, 54028, 32, 49, 47, 50, 44060],
          [50528, 54840, 48149, 32, 49, 47, 51, 44060],
          [52397, 50577, 44256, 52628, 32, 50, 44060],
          [47560, 45720, 32, 51, 51901],
          [47736, 52824, 50977, 49688, 32, 50, 52981]],
      instructions =
         [[47736, 52824, 50977, 49688, 47484, 32, 50864, 47140, 45253, 45768, 45796],
          [44048, 51088, 50752, 32, 50577, 54028, 47484, 32, 53372, 51649, 54616, 44172, 32,
          50032, 50612, 51469, 45768, 45796],
          [45139, 45716, 32, 50977, 49688, 50640, 32, 46108, 51109, 51012, 32, 54400, 50612,
          51469, 45768, 45796],
          [44048, 51088, 50752, 32, 50577, 54028, 47484, 32, 45347, 44256, 32, 45139, 51077,
          45768, 45796],
          [46160, 48512, 50752, 32, 50528, 54840, 48149, 44, 32, 44256, 52628, 47484, 32,
          45347, 49845, 45768, 45796],
          [47560, 45720, 44284, 32, 54028, 47484, 32, 45347, 44256, 32, 47560, 47924, 47532,
          54633, 45768, 45796]],
      tips =
         [[46108, 51109, 51008, 32, 52404, 50640, 32, 44144, 47476, 47732, 32, 45908, 32,
          48512, 46300, 47101, 49845, 45768, 45796],
          [46160, 48512, 45716, 32, 47560, 51648, 47561, 50640, 32, 45347, 50612, 32, 48512,
          49436, 51648, 51648, 32, 50506, 44172, 32, 54616, 49464, 50836]],
      nutrition = Some
         \<lparr>calories = [50557, 32, 49, 56, 48, 107, 99, 97, 108],
          protein = ascii ''12g'', carbs = ascii ''15g'', fat = ascii ''8g''\<rparr>\<rparr>"

text \<open>The template of \<^verbatim>\<open>italian\<close> that starts at line 441 of \<^verbatim>\<open>server.js\<close>.\<close>

definition cream_pasta :: recipe where
  "cream_pasta =
     \<lparr>name = [53356, 47548, 32, 54028, 49828, 53440],
      description = [48512, 46300, 47101, 44256, 32, 51652, 54620, 32, 53356, 47548, 49548,
       49828, 32, 54028, 49828, 53440],
      prepTime = [49, 48, 48516],
      cookTime = [50, 48, 48516],
      totalTime = [51, 48, 48516],
      servings = [50, 51064, 48516],
      difficulty = ascii ''easy'',
      ingredients =
         [[54028, 49828, 53440, 32, 50, 48, 48, 103],
          [49373, 53356, 47548, 32, 50, 48, 48, 109, 108],
          [48288, 51060, 52968, 32, 49, 48, 48, 103],
          [50577, 54028, 32, 49, 47, 50, 44060],
          [47560, 45720, 32, 51, 51901],
          [54028, 47560, 49328, 32, 52824, 51592, 32, 53, 48, 103],
          [50732, 47532, 48652, 50724, 51068, 32, 50, 53360, 49696],
          [49548, 44552, 44, 32, 54980, 52628, 32, 50557, 44036]],
      instructions =
         [[54028, 49828, 53440, 47484, 32, 49548, 44552, 47932, 50640, 32, 49334, 50500,
          51469, 45768, 45796],
          [54060, 50640, 32, 50732, 47532, 48652, 50724, 51068, 51012, 32, 46160, 47476,
          44256, 32, 48288, 51060, 52968, 51012, 32, 48374, 49845, 45768, 45796],
          [50577, 54028, 50752, 32, 47560, 45720, 51012, 32, 45347, 44256, 32, 48374, 50500,
          51469, 45768, 45796],
          [49373, 53356, 47548, 51012, 32, 45347, 44256, 32, 45139, 50612, 50724, 47476,
          47732, 32, 50557, 48520, 47196, 32, 51460, 51077, 45768, 45796],
          [49334, 51008, 32, 54028, 49828, 53440, 47484, 32, 45347, 44256, 32, 51096, 32,
          49438, 50612, 51469, 45768, 45796],
          [54028, 47560, 49328, 32, 52824, 51592, 50752, 32, 54980, 52628, 47484, 32, 45347,
          44256, 32, 47560, 47924, 47532, 54633, 45768, 45796]],
      tips =
         [[54028, 49828, 53440, 45716, 32, 50508, 45940, 53580, 47196, 32, 49334, 51004,
          49464, 50836],
          [53356, 47548, 51008, 32, 45139, 51060, 47732, 32, 48516, 47532, 46112, 32, 49688,
          32, 51080, 51004, 45768, 32, 51452, 51032, 54616, 49464, 50836]],
      nutrition = None\<rparr>"

text \<open>The template of \<^verbatim>\<open>italian\<close> that starts at line 472 of \<^verbatim>\<open>server.js\<close>.\<close>

definition tomato_pasta :: recipe where
  "tomato_pasta =
     \<lparr>name = [53664, 47560, 53664, 32, 54028, 49828, 53440],
      description = [49888, 49440, 54620, 32, 53664, 47560, 53664, 51032, 32, 49345, 53372,
       54620, 32, 47579],
      prepTime = [49, 53, 48516],
      cookTime = [50, 53, 48516],
      totalTime = [52, 48, 48516],
      servings = [50, 51064, 48516],
      difficulty = ascii ''easy'',
      ingredients =
         [[54028, 49828, 53440, 32, 50, 48, 48, 103],
          [53664, 47560, 53664, 32, 52884, 32, 49, 44060],
          [50577, 54028, 32, 49, 44060],
          [47560, 45720, 32, 52, 51901],
          [48148, 51656, 32, 51086, 32, 49, 48, 51109],
          [50732, 47532, 48652, 50724, 51068, 32, 51, 53360, 49696],
          [49548, 44552, 44, 32, 54980, 52628],
          [54028, 47560, 49328, 32, 52824, 51592]],
      instructions =
         [[54028, 49828, 53440, 47484, 32, 49334, 44592, 32, 49884, 51089, 54633, 45768,
          45796],
          [50577, 54028, 50752, 32, 47560, 45720, 51012, 32, 51096, 44172, 32, 45796, 51256,
          51469, 45768, 45796],
          [54060, 50640, 32, 50732, 47532, 48652, 50724, 51068, 51012, 32, 46160, 47476,
          44256, 32, 50577, 54028, 47484, 32, 48374, 49845, 45768, 45796],
          [47560, 45720, 51012, 32, 45347, 44256, 32, 54693, 51060, 32, 45216, 32, 46412,
          44620, 51648, 32, 48374, 49845, 45768, 45796],
          [53664, 47560, 53664, 32, 52884, 51012, 32, 45347, 44256, 32, 45139, 50668, 51469,
          45768, 45796],
          [49334, 51008, 32, 54028, 49828, 53440, 50752, 32, 48148, 51656, 51012, 32, 45347,
          44256, 32, 49438, 49845, 45768, 45796]],
      tips =
         [[53664, 47560, 53664, 45716, 32, 51004, 44648, 44032, 47728, 32, 48374, 51004,
          47732, 32, 45908, 32, 51652, 54620, 32, 47579, 51060, 32, 45225, 45768, 45796],
          [48148, 51656, 51008, 32, 47560, 51648, 47561, 50640, 32, 45347, 50612, 32, 54693,
          51012, 32, 49332, 47532, 49464, 50836]],
      nutrition = None\<rparr>"

text \<open>The template of \<^verbatim>\<open>asian\<close> that starts at line 505 of \<^verbatim>\<open>server.js\<close>.\<close>

definition stir_fried_noodles :: recipe where
  "stir_fried_noodles =
     \<lparr>name = [48374, 51020, 47732],
      description = [44036, 45800, 54616, 44256, 32, 47579, 51080, 45716, 32, 50500, 49884,
       50504, 32, 48374, 51020, 47732],
      prepTime = [49, 48, 48516],
      cookTime = [49, 53, 48516],
      totalTime = [50, 53, 48516],
      servings = [50, 51064, 48516],
      difficulty = ascii ''easy'',
      ingredients =
         [[46972, 47732, 32, 50, 44060],
          [50577, 48176, 52628, 32, 50, 51086],
          [45817, 44540, 32, 49, 47, 50, 44060],
          [50577, 54028, 32, 49, 47, 50, 44060],
          [44036, 51109, 32, 50, 53360, 49696],
          [44404, 49548, 49828, 32, 49, 53360, 49696],
          [52280, 44592, 47492, 32, 49, 53360, 49696],
          [49885, 50857, 50976, 32, 50, 53360, 49696]],
      instructions =
         [[47732, 51012, 32, 45139, 45716, 32, 47932, 50640, 32, 49332, 51677, 32, 49334,
          50500, 51469, 45768, 45796],
          [50556, 52292, 46308, 51012, 32, 52292, 32, 50032, 50612, 32, 51456, 48708, 54633,
          45768, 45796],
          [54060, 50640, 32, 44592, 47492, 51012, 32, 46160, 47476, 44256, 32, 50556, 52292,
          47484, 32, 48374, 49845, 45768, 45796],
          [47732, 51012, 32, 45347, 44256, 32, 54632, 44760, 32, 48374, 50500, 51469, 45768,
          45796],
          [44036, 51109, 44284, 32, 44404, 49548, 49828, 47196, 32, 44036, 51012, 32, 47582,
          52645, 45768, 45796],
          [52280, 44592, 47492, 51012, 32, 45347, 44256, 32, 47560, 47924, 47532, 54633,
          45768, 45796]],
      tips =
         [[47732, 51008, 32, 45320, 47924, 32, 50724, 47000, 32, 49334, 51648, 32, 47560,
          49464, 50836],
          [44053, 54620, 32, 48520, 50640, 49436, 32, 48736, 47476, 44172, 32, 48374, 45716,
          32, 44163, 51060, 32, 54252, 51064, 53944, 51077, 45768, 45796]],
      nutrition = None\<rparr>"

text \<open>The template of \<^verbatim>\<open>mexican\<close> that starts at line 538 of \<^verbatim>\<open>server.js\<close>.\<close>

definition chicken_burrito :: recipe where
  "chicken_burrito =
     \<lparr>name = [52824, 53416, 32, 48512, 47532, 46608],
      description = [47588, 53092, 54620, 32, 52824, 53416, 44284, 32, 49888, 49440, 54620,
       32, 50556, 52292, 51032, 32, 51312, 54868],
      prepTime = [50, 48, 48516],
      cookTime = [49, 53, 48516],
      totalTime = [51, 53, 48516],
      servings = [50, 51064, 48516],
      difficulty = ascii ''medium'',
      ingredients =
         [[53664, 47476, 54000, 50556, 32, 52, 51109],
          [45805, 44032, 49844, 49332, 32, 51, 48, 48, 103],
          [50577, 54028, 32, 49, 44060],
          [54588, 47581, 32, 49, 44060],
          [53664, 47560, 53664, 32, 49, 44060],
          [52824, 51592, 32, 49, 48, 48, 103],
          [49324, 50892, 53356, 47548],
          [53440, 53076, 32, 49884, 51592, 45789]],
      instructions =
         [[45805, 44032, 49844, 49332, 51012, 32, 47673, 44592, 32, 51339, 51008, 32, 53356,
          44592, 47196, 32, 51088, 47493, 45768, 45796],
          [50556, 52292, 46308, 51012, 32, 50032, 50612, 32, 51456, 48708, 54633, 45768,
          45796],
          [45805, 44256, 44592, 50640, 32, 49884, 51592, 45789, 51012, 32, 48156, 46972, 32,
          48374, 49845, 45768, 45796],
          [50556, 52292, 47484, 32, 45347, 44256, 32, 54632, 44760, 32, 48374, 50500, 51469,
          45768, 45796],
          [53664, 47476, 54000, 50556, 50640, 32, 51116, 47308, 46308, 51012, 32, 50732,
          47549, 45768, 45796],
          [47568, 50500, 49436, 32, 50756, 49457, 54633, 45768, 45796]],
      tips =
         [[53664, 47476, 54000, 50556, 45716, 32, 49332, 51677, 32, 45936, 50892, 49436, 32,
          49324, 50857, 54616, 49464, 50836],
          [49549, 51060, 32, 45320, 47924, 32, 47566, 51004, 47732, 32, 47568, 44592, 32,
          50612, 47140, 50864, 45768, 32, 51201, 45817, 55176, 32, 45347, 51004, 49464,
          50836]],
      nutrition = None\<rparr>"

text \<open>The template of \<^verbatim>\<open>default\<close> that starts at line 571 of \<^verbatim>\<open>server.js\<close>.\<close>

definition chicken_vegetable_stir_fry :: recipe where
  "chicken_vegetable_stir_fry =
     \<lparr>name = [45805, 44032, 49844, 49332, 32, 50556, 52292, 48374, 51020],
      description = [44148, 44053, 54616, 44256, 32, 45812, 48177, 54620, 32, 44256, 45800,
       48177, 32, 50836, 47532],
      prepTime = [49, 48, 48516],
      cookTime = [49, 53, 48516],
      totalTime = [50, 53, 48516],
      servings = [50, 51064, 48516],
      difficulty = ascii ''easy'',
      ingredients =
         [[45805, 44032, 49844, 49332, 32, 50, 48, 48, 103],
          [50577, 54028, 32, 49, 44060],
          [54588, 47581, 32, 50, 44060],
          [47560, 45720, 32, 51, 51901],
          [44036, 51109, 32, 50, 53360, 49696],
          [50732, 47532, 48652, 50724, 51068, 32, 50, 53360, 49696],
          [49548, 44552, 44, 32, 54980, 52628, 32, 50557, 44036]],
      instructions =
         [[45805, 44032, 49844, 49332, 51012, 32, 54620, 51077, 32, 53356, 44592, 47196, 32,
          51088, 47493, 45768, 45796],
          [50556, 52292, 46308, 51012, 32, 51201, 45817, 54620, 32, 53356, 44592, 47196, 32,
          50032, 50612, 46177, 45768, 45796],
          [54060, 50640, 32, 44592, 47492, 51012, 32, 46160, 47476, 44256, 32, 45805, 44032,
          49844, 49332, 51012, 32, 48374, 49845, 45768, 45796],
          [45805, 44256, 44592, 44032, 32, 51061, 51004, 47732, 32, 50556, 52292, 47484, 32,
          45347, 44256, 32, 48374, 49845, 45768, 45796],
          [44036, 51109, 51004, 47196, 32, 44036, 51012, 32, 47582, 52628, 44256, 32, 51096,
          32, 49438, 50612, 51469, 45768, 45796],
          [49548, 44552, 44284, 32, 54980, 52628, 47196, 32, 47560, 51648, 47561, 32, 44036,
          51012, 32, 47582, 52645, 45768, 45796]],
      tips =
         [[45805, 44032, 49844, 49332, 51008, 32, 45320, 47924, 32, 50724, 47000, 32, 48374,
          51004, 47732, 32, 54141, 54141, 54644, 51665, 45768, 45796],
          [50556, 52292, 45716, 32, 50500, 49325, 54620, 32, 49885, 44048, 51012, 32, 49332,
          47140, 51452, 49464, 50836]],
      nutrition = Some
         \<lparr>calories = [50557, 32, 51, 53, 48, 107, 99, 97, 108],
          protein = ascii ''35g'', carbs = ascii ''12g'', fat = ascii ''18g''\<rparr>\<rparr>"

text \<open>The template of \<^verbatim>\<open>default\<close> that starts at line 607 of \<^verbatim>\<open>server.js\<close>.\<close>

definition egg_fried_rice :: recipe where
  "egg_fried_rice =
     \<lparr>name = [44228, 46976, 48374, 51020, 48165],
      description = [44036, 45800, 54616, 51648, 47564, 32, 47579, 51080, 45716, 32, 44592,
       48376, 32, 48374, 51020, 48165],
      prepTime = [53, 48516],
      cookTime = [49, 48, 48516],
      totalTime = [49, 53, 48516],
      servings = [49, 51064, 48516],
      difficulty = ascii ''easy'',
      ingredients =
         [[48165, 32, 49, 44277, 44592],
          [44228, 46976, 32, 50, 44060],
          [54028, 32, 49, 45824],
          [47560, 45720, 32, 49, 51901],
          [44036, 51109, 32, 49, 53360, 49696],
          [52280, 44592, 47492, 32, 49, 51089, 51008, 49696],
          [49885, 50857, 50976, 32, 50, 53360, 49696],
          [49548, 44552, 32, 50557, 44036]],
      instructions =
         [[44228, 46976, 51012, 32, 54400, 50612, 49436, 32, 49548, 44552, 51004, 47196, 32,
          44036, 54633, 45768, 45796],
          [54060, 50640, 32, 44592, 47492, 51012, 32, 46160, 47476, 44256, 32, 44228, 46976,
          51012, 32, 49828, 53356, 47016, 48660, 54633, 45768, 45796],
          [47560, 45720, 51012, 32, 45347, 44256, 32, 48374, 50500, 51469, 45768, 45796],
          [48165, 51012, 32, 45347, 44256, 32, 44228, 46976, 44284, 32, 49438, 50612, 32,
          48374, 49845, 45768, 45796],
          [44036, 51109, 44284, 32, 54028, 47484, 32, 45347, 50612, 32, 48374, 49845, 45768,
          45796],
          [52280, 44592, 47492, 51012, 32, 45347, 44256, 32, 47560, 47924, 47532, 54633,
          45768, 45796]],
      tips =
         [[44228, 46976, 51008, 32, 48512, 46300, 47101, 44172, 32, 49828, 53356, 47016,
          48660, 54616, 49464, 50836],
          [52268, 48165, 51012, 32, 49324, 50857, 54616, 47732, 32, 45908, 32, 44256, 49836,
          44256, 49836, 54633, 45768, 45796]],
      nutrition = None\<rparr>"

text \<open>The template of \<^verbatim>\<open>default\<close> that starts at line 638 of \<^verbatim>\<open>server.js\<close>.\<close>

definition salad :: recipe where
  "salad =
     \<lparr>name = [49360, 47084, 46300],
      description = [49888, 49440, 54616, 44256, 32, 44148, 44053, 54620, 32, 50556, 52292,
       32, 49360, 47084, 46300],
      prepTime = [49, 53, 48516],
      cookTime = [48, 48516],
      totalTime = [49, 53, 48516],
      servings = [50, 51064, 48516],
      difficulty = ascii ''easy'',
      ingredients =
         [[50577, 49345, 52628, 32, 49, 53685],
          [53664, 47560, 53664, 32, 50, 44060],
          [50724, 51060, 32, 49, 44060],
          [45817, 44540, 32, 49, 47, 50, 44060],
          [50732, 47532, 48652, 50724, 51068, 32, 51, 53360, 49696],
          [49885, 52488, 32, 49, 53360, 49696],
          [49548, 44552, 44, 32, 54980, 52628],
          [52824, 51592, 32, 40, 49440, 53469, 41]],
      instructions =
         [[50577, 49345, 52628, 45716, 32, 52268, 47932, 50640, 32, 50491, 50612, 32, 47932,
          44592, 47484, 32, 51228, 44144, 54633, 45768, 45796],
          [53664, 47560, 53664, 45716, 32, 47673, 44592, 32, 51339, 51008, 32, 53356, 44592,
          47196, 32, 51088, 47493, 45768, 45796],
          [50724, 51060, 50752, 32, 45817, 44540, 51012, 32, 49836, 46972, 51060, 49828,
          54633, 45768, 45796],
          [47784, 46304, 32, 50556, 52292, 47484, 32, 44536, 47495, 50640, 32, 45812, 49845,
          45768, 45796],
          [50732, 47532, 48652, 50724, 51068, 44284, 32, 49885, 52488, 47484, 32, 49438,
          50612, 32, 46300, 47112, 49905, 51012, 32, 47564, 46317, 45768, 45796],
          [46300, 47112, 49905, 51012, 32, 49100, 47532, 44256, 32, 49438, 50612, 49436, 32,
          50756, 49457, 54633, 45768, 45796]],
      tips =
         [[50556, 52292, 45716, 32, 52264, 44049, 44172, 32, 48372, 44288, 54664, 45796, 32,
          49324, 50857, 54616, 49464, 50836],
          [46300, 47112, 49905, 51008, 32, 47673, 44592, 32, 51649, 51204, 50640, 32, 49100,
          47532, 49464, 50836]],
      nutrition = None\<rparr>"

text \<open>\<^verbatim>\<open>getRecipeTemplates\<close>: the five categories in the order the object literal lists them.\<close>

definition getRecipeTemplates :: templates where
  "getRecipeTemplates =
     \<lparr>korean = [kimchi_fried_rice, doenjang_stew],
      italian = [cream_pasta, tomato_pasta],
      asian = [stir_fried_noodles],
      mexican = [chicken_burrito],
      default' = [chicken_vegetable_stir_fry, egg_fried_rice, salad]\<rparr>"

text \<open>
  Vocabulary of the statements about the limiter. A query runs without fault when no
  fault is injected into it. A caller is on the free tier when the request is anonymous,
  or when its user row is not an active premium row (the trigger \<^verbatim>\<open>on_auth_user_created\<close>
  of the schema gives every authenticated user a row; without one the query of the
  premium check would come back with an error). The stored count is the \<open>count\<close> column of
  the caller's row for the day, if there is a row.
\<close>

definition no_faults :: "env \<Rightarrow> bool" where
  "no_faults e =
     (user_read_fault e = None \<and> usage_read_fault e = None \<and> usage_write_fault e = None)"

definition free_caller :: "request \<Rightarrow> db \<Rightarrow> bool" where
  "free_caller req d =
     (if truthy (user_id req)
      then (case users d (the (user_id req)) of None \<Rightarrow> False | Some r \<Rightarrow> \<not> is_premium (Some r))
      else True)"

definition stored_count :: "db \<Rightarrow> request \<Rightarrow> string \<Rightarrow> int option" where
  "stored_count d req day =
     (case recipe_usage d (identifier_of req, day) of None \<Rightarrow> None | Some r \<Rightarrow> count r)"

fun admitted :: "outcome \<Rightarrow> bool" where
  "admitted (Next h) = True"
| "admitted (Respond s b) = False"

text \<open>
  Vocabulary of the statements about the webhook: the tables after a handler has run,
  the row that the deletion of a subscription writes at a given time, and the six kinds
  of event that the \<^verbatim>\<open>switch\<close> names.
\<close>

definition db_after :: "db \<Rightarrow> thrown + db \<Rightarrow> db" where
  "db_after d r = (case r of Inl t \<Rightarrow> d | Inr d' \<Rightarrow> d')"

definition cancelled_at :: "nat \<Rightarrow> user_row \<Rightarrow> user_row" where
  "cancelled_at t row =
     row\<lparr>subscription_status := ''cancelled'', subscription_tier := ''free'',
         subscription_end_date := Some t, updated_at := Some t\<rparr>"



text \<open>
  Vocabulary of the statements about the markers: the number of places of a name at
  which a marker of a given list begins, and the markers of \<open>enhanceRecipe\<close>, which are
  the values of its table and its default.
\<close>

fun occurrences :: "jsstring list \<Rightarrow> jsstring \<Rightarrow> nat" where
  "occurrences ms [] = 0"
| "occurrences ms (c # cs) =
     (if list_ex (\<lambda>m. prefix m (c # cs)) ms then 1 else 0) + occurrences ms cs"

definition enhance_markers :: "jsstring list" where
  "enhance_markers = map snd enhance_cuisineEmojis @ [enhance_default_emoji]"

text \<open>
  A code unit that is half of a surrogate pair: a name without one is made of characters
  of the Basic Multilingual Plane. And the two markers that line 293 of \<open>enhanceRecipe\<close>
  looks for in the name, which are its default and that of \<open>italian\<close>.
\<close>

definition is_surrogate :: "nat \<Rightarrow> bool" where
  "is_surrogate c = (55296 \<le> c \<and> c \<le> 57343)"

definition enhance_tested :: "jsstring list" where
  "enhance_tested = [enhance_default_emoji, enhance_emoji (ascii ''italian'')]"

section \<open>Concrete inputs\<close>

text \<open>An anonymous caller, empty tables, a day on which every query is answered.\<close>

definition anonymous_request :: request where
  "anonymous_request = \<lparr>user_id = None, ip = ''203.0.113.7''\<rparr>"

definition empty_db :: db where
  "empty_db = \<lparr>users = Map.empty, recipe_usage = Map.empty\<rparr>"

definition quiet_env :: "nat \<Rightarrow> env" where
  "quiet_env t = \<lparr>today = ''2024-05-01'', now = t, user_read_fault = None,
                  usage_read_fault = None, usage_write_fault = None\<rparr>"

definition premium_request :: request where
  "premium_request = \<lparr>user_id = Some ''user-1'', ip = ''203.0.113.7''\<rparr>"

definition premium_row :: user_row where
  "premium_row = \<lparr>subscription_status = ''active'', subscription_tier = ''premium'',
                  subscription_start_date = Some 1000, subscription_end_date = Some 9000,
                  updated_at = Some 1000\<rparr>"

definition premium_db :: db where
  "premium_db = \<lparr>users = [''user-1'' \<mapsto> premium_row], recipe_usage = Map.empty\<rparr>"

definition exhausted_usage :: "string \<times> string \<rightharpoonup> usage_row" where
  "exhausted_usage = [(''user-1'', ''2024-05-01'') \<mapsto> \<lparr>count = Some 7, usage_user_id = Some ''user-1''\<rparr>]"

definition read_fault_env :: env where
  "read_fault_env = (quiet_env 6)\<lparr>usage_read_fault := Some (ErrorReply ''57014'')\<rparr>"

definition write_fault_env :: env where
  "write_fault_env = (quiet_env 7)\<lparr>usage_write_fault := Some (ErrorReply ''40001'')\<rparr>"

definition short_body :: recipe_body where
  "short_body = \<lparr>body_ingredients = Str (ascii ''ab''), body_cuisine = Undefined,
                 body_cookingTime = Undefined, body_dietary = Undefined,
                 body_skillLevel = Undefined\<rparr>"

definition any_answer :: "recipe_body \<Rightarrow> outcome" where
  "any_answer b = Respond 200 (JObj [(''success'', JBool True)])"

text \<open>
  A deleted subscription of the premium user and its event; an event of a kind that the
  route does not handle; the body of a call that carries the first event, as JSON text; a
  provider library that accepts one signature for that body and one for another body;
  the provider's call itself, and the same call with a forged signature. The
  environments answer every update and count \<open>n\<close> calls of the client in either
  window.
\<close>

definition deleted_subscription :: stripe_object where
  "deleted_subscription =
     \<lparr>object_id = ''sub_1'', metadata = Some [(''userId'', ''user-1'')], status = ''canceled'',
      created = 1700000000, current_period_end = 1702592000, subscription = ''''\<rparr>"

definition deleted_event :: stripe_event where
  "deleted_event = \<lparr>event_type = ''customer.subscription.deleted'', event_id = ''evt_1'',
                    event_object = deleted_subscription\<rparr>"

definition unhandled_event :: stripe_event where
  "unhandled_event = \<lparr>event_type = ''customer.created'', event_id = ''evt_2'',
                      event_object = deleted_subscription\<rparr>"

definition quoted :: "string \<Rightarrow> string" where
  "quoted s = CHR 0x22 # s @ [CHR 0x22]"

definition deleted_event_text :: string where
  "deleted_event_text =
     ''{'' @ quoted ''id'' @ '':'' @ quoted ''evt_1'' @ '','' @
     quoted ''type'' @ '':'' @ quoted ''customer.subscription.deleted'' @ ''}''"

definition signed_by_provider :: "string \<Rightarrow> string option \<Rightarrow> string + stripe_event" where
  "signed_by_provider bytes sig =
     (if bytes = deleted_event_text \<and> sig = Some ''t=1,v1=good'' then Inr deleted_event
      else if bytes = ''{}'' \<and> sig = Some ''t=1,v1=other'' then Inr unhandled_event
      else Inl ''No signatures found matching the expected signature for payload'')"

definition no_subscription :: "string \<Rightarrow> thrown + stripe_object" where
  "no_subscription sid = Inl Thrown"

definition webhook_env_at :: "nat \<Rightarrow> nat \<Rightarrow> webhook_env" where
  "webhook_env_at t n =
     \<lparr>clock = t, parse_error = (\<lambda>text. None), verify = signed_by_provider,
      object_refused = ''Webhook payload must be provided as a string or a Buffer'',
      retrieve = no_subscription, users_write_fault = None, api_hits = n, hits = n\<rparr>"


definition provider_call :: webhook_request where
  "provider_call =
     \<lparr>is_json = True, raw_body = deleted_event_text, signature = Some ''t=1,v1=good''\<rparr>"


text \<open>
  Inputs of the fallback generator. \<open>tortilla\<close> is the first word of line 546 and
  \<open>chicken_breast\<close> the first word of line 579; \<open>chili_paste\<close> is the three syllables of
  the word for red pepper paste, an ingredient of no template, and \<open>chili_paste_sauce\<close> is
  that word followed by the two syllables of the word for sauce.
\<close>

definition tortilla :: jsstring where
  "tortilla = [53664, 47476, 54000, 50556]"

definition chicken_breast :: jsstring where
  "chicken_breast = [45805, 44032, 49844, 49332]"

definition vegetarian_form :: formData where
  "vegetarian_form =
     \<lparr>fd_ingredients = chicken_breast, cuisine = [], cookingTime = [],
      dietary = ascii ''vegetarian'', skillLevel = []\<rparr>"

definition chili_paste_sauce :: jsstring where
  "chili_paste_sauce = [44256, 52628, 51109, 49548, 49828]"

definition chili_paste :: jsstring where
  "chili_paste = [44256, 52628, 51109]"

definition plain_form :: formData where
  "plain_form =
     \<lparr>fd_ingredients = chili_paste_sauce @ [44, 32] @ chili_paste, cuisine = [], cookingTime = [],
      dietary = [], skillLevel = []\<rparr>"

text \<open>
  Names: one that begins with the frying pan and the emoji of \<open>italian\<close>, and a plain one,
  which is also the only key of a reply of the completion API.
\<close>

definition two_markers :: jsstring where
  "two_markers = [55356, 57203, 55356, 57181, 32, 80, 97, 115, 116, 97]"

definition pasta :: jsstring where
  "pasta = [80, 97, 115, 116, 97]"

definition parsed_pasta :: parsed_recipe where
  "parsed_pasta =
     \<lparr>p_name = Some pasta, p_description = None, p_prepTime = None, p_cookTime = None,
      p_totalTime = None, p_servings = None, p_difficulty = None, p_ingredients = None,
      p_instructions = None, p_tips = None, p_nutrition = None\<rparr>"

definition no_options :: enhance_options where
  "no_options = \<lparr>o_cuisine = None, o_dietary = None, o_skillLevel = None\<rparr>"

section \<open>Properties of the recipe-generation limiter\<close>

lemma check_premium_free:
  "free_caller req d \<Longrightarrow> user_read_fault e = None \<Longrightarrow> check_premium e req d = Inr None"
  by (auto simp: check_premium_def free_caller_def single_def split: option.splits)

lemma free_caller_usage_update:
  "free_caller req (d\<lparr>recipe_usage := u\<rparr>) = free_caller req d"
  by (simp add: free_caller_def)

lemma limiter_absent:
  assumes "free_caller req d" "no_faults e" "recipe_usage d (identifier_of req, today e) = None"
  shows "recipeGenerationLimiter e req d =
     (Next (Some \<lparr>x_ratelimit_remaining = 2, x_ratelimit_limit = 3,
                  x_ratelimit_reset = now e + 24 * 60 * 60 * 1000\<rparr>),
      d\<lparr>recipe_usage := (recipe_usage d)((identifier_of req, today e) \<mapsto>
           \<lparr>count = Some 1, usage_user_id = user_id req\<rparr>)\<rparr>)"
  using assms
  by (simp add: recipeGenerationLimiter_def check_premium_free no_faults_def count_and_admit_def
      single_def currentCount_of_def maxFreeRecipes_def insert_usage_def write_unchecked_def Let_def)

lemma limiter_counted:
  assumes "free_caller req d" "no_faults e"
    "recipe_usage d (identifier_of req, today e) = Some row" "count row = Some c" "c < 3"
  shows "recipeGenerationLimiter e req d =
     (Next (Some \<lparr>x_ratelimit_remaining = 3 - c - 1, x_ratelimit_limit = 3,
                  x_ratelimit_reset = now e + 24 * 60 * 60 * 1000\<rparr>),
      d\<lparr>recipe_usage := (recipe_usage d)((identifier_of req, today e) \<mapsto>
           row\<lparr>count := Some (c + 1)\<rparr>)\<rparr>)"
  using assms
  by (simp add: recipeGenerationLimiter_def check_premium_free no_faults_def count_and_admit_def
      single_def currentCount_of_def maxFreeRecipes_def update_count_def write_unchecked_def Let_def)

lemma limiter_limit_reached:
  assumes "free_caller req d" "no_faults e"
    "recipe_usage d (identifier_of req, today e) = Some row" "count row = Some c" "c \<ge> 3"
  shows "recipeGenerationLimiter e req d = (limit_reached c, d)"
  using assms
  by (simp add: recipeGenerationLimiter_def check_premium_free no_faults_def count_and_admit_def
      single_def currentCount_of_def maxFreeRecipes_def Let_def)

text \<open>
  Claim C1. A caller on the free tier with no usage row for the day sends four requests
  one after the other, on that day and with every query answered. The first three are
  admitted and leave the stored count at 1, 2 and 3. The fourth is answered 429 with
  \<open>limit = 3\<close>, \<open>current = 3\<close> and the upgrade pointer, and leaves the tables as they
  were, the count at 3.
\<close>

theorem four_requests_of_a_free_caller:
  assumes free: "free_caller req d"
    and ok: "no_faults e1" "no_faults e2" "no_faults e3" "no_faults e4"
    and day: "today e2 = today e1" "today e3 = today e1" "today e4 = today e1"
    and absent: "recipe_usage d (identifier_of req, today e1) = None"
  shows "let r1 = recipeGenerationLimiter e1 req d;
             r2 = recipeGenerationLimiter e2 req (snd r1);
             r3 = recipeGenerationLimiter e3 req (snd r2);
             r4 = recipeGenerationLimiter e4 req (snd r3)
         in admitted (fst r1) \<and> stored_count (snd r1) req (today e1) = Some 1 \<and>
            admitted (fst r2) \<and> stored_count (snd r2) req (today e1) = Some 2 \<and>
            admitted (fst r3) \<and> stored_count (snd r3) req (today e1) = Some 3 \<and>
            fst r4 = Respond 429 (JObj
              [(''error'', JStr ''Daily recipe limit reached''),
               (''message'', JStr ''You have reached your daily limit of 3 free recipes. Please upgrade to Premium for unlimited recipes.''),
               (''limit'', JNum 3),
               (''current'', JNum 3),
               (''upgradeUrl'', JStr ''/membership'')]) \<and>
            snd r4 = snd r3 \<and> stored_count (snd r4) req (today e1) = Some 3"
proof -
  let ?k = "(identifier_of req, today e1)"
  let ?row = "\<lparr>count = Some 1, usage_user_id = user_id req\<rparr>"
  define d1 where "d1 = d\<lparr>recipe_usage := (recipe_usage d)(?k \<mapsto> ?row)\<rparr>"
  define d2 where "d2 = d1\<lparr>recipe_usage := (recipe_usage d1)(?k \<mapsto> ?row\<lparr>count := Some 2\<rparr>)\<rparr>"
  define d3 where "d3 = d2\<lparr>recipe_usage := (recipe_usage d2)(?k \<mapsto> ?row\<lparr>count := Some 3\<rparr>)\<rparr>"
  have s1: "recipeGenerationLimiter e1 req d =
      (Next (Some \<lparr>x_ratelimit_remaining = 2, x_ratelimit_limit = 3,
                   x_ratelimit_reset = now e1 + 24 * 60 * 60 * 1000\<rparr>), d1)"
    using limiter_absent [OF free ok(1) absent] by (simp add: d1_def)
  have free1: "free_caller req d1"
    using free by (simp add: d1_def free_caller_usage_update)
  have row1: "recipe_usage d1 (identifier_of req, today e2) = Some ?row"
    by (simp add: d1_def day)
  have s2: "recipeGenerationLimiter e2 req d1 =
      (Next (Some \<lparr>x_ratelimit_remaining = 1, x_ratelimit_limit = 3,
                   x_ratelimit_reset = now e2 + 24 * 60 * 60 * 1000\<rparr>), d2)"
    using limiter_counted [OF free1 ok(2) row1, of 1] by (simp add: d2_def day)
  have free2: "free_caller req d2"
    using free1 by (simp add: d2_def free_caller_usage_update)
  have row2: "recipe_usage d2 (identifier_of req, today e3) = Some (?row\<lparr>count := Some 2\<rparr>)"
    by (simp add: d2_def day)
  have s3: "recipeGenerationLimiter e3 req d2 =
      (Next (Some \<lparr>x_ratelimit_remaining = 0, x_ratelimit_limit = 3,
                   x_ratelimit_reset = now e3 + 24 * 60 * 60 * 1000\<rparr>), d3)"
    using limiter_counted [OF free2 ok(3) row2, of 2] by (simp add: d3_def day)
  have free3: "free_caller req d3"
    using free2 by (simp add: d3_def free_caller_usage_update)
  have row3: "recipe_usage d3 (identifier_of req, today e4) = Some (?row\<lparr>count := Some 3\<rparr>)"
    by (simp add: d3_def day)
  have s4: "recipeGenerationLimiter e4 req d3 = (limit_reached 3, d3)"
    using limiter_limit_reached [OF free3 ok(4) row3, of 3] by simp
  have c1: "stored_count d1 req (today e1) = Some 1"
    by (simp add: stored_count_def d1_def)
  have c2: "stored_count d2 req (today e1) = Some 2"
    by (simp add: stored_count_def d2_def)
  have c3: "stored_count d3 req (today e1) = Some 3"
    by (simp add: stored_count_def d3_def)
  show ?thesis
    by (simp add: Let_def s1 s2 s3 s4 c1 c2 c3 limit_reached_def maxFreeRecipes_def)
qed

theorem four_requests_of_a_free_caller_witness:
  "free_caller anonymous_request empty_db \<and> no_faults (quiet_env 1) \<and>
   recipe_usage empty_db (identifier_of anonymous_request, today (quiet_env 1)) = None \<and>
   (let r1 = recipeGenerationLimiter (quiet_env 1) anonymous_request empty_db;
        r2 = recipeGenerationLimiter (quiet_env 2) anonymous_request (snd r1);
        r3 = recipeGenerationLimiter (quiet_env 3) anonymous_request (snd r2);
        r4 = recipeGenerationLimiter (quiet_env 4) anonymous_request (snd r3)
    in admitted (fst r1) \<and> stored_count (snd r1) anonymous_request ''2024-05-01'' = Some 1 \<and>
       admitted (fst r2) \<and> stored_count (snd r2) anonymous_request ''2024-05-01'' = Some 2 \<and>
       admitted (fst r3) \<and> stored_count (snd r3) anonymous_request ''2024-05-01'' = Some 3 \<and>
       fst r4 = Respond 429 (JObj
         [(''error'', JStr ''Daily recipe limit reached''),
          (''message'', JStr ''You have reached your daily limit of 3 free recipes. Please upgrade to Premium for unlimited recipes.''),
          (''limit'', JNum 3),
          (''current'', JNum 3),
          (''upgradeUrl'', JStr ''/membership'')]) \<and>
       snd r4 = snd r3 \<and> stored_count (snd r4) anonymous_request ''2024-05-01'' = Some 3)"
proof -
  have free: "free_caller anonymous_request empty_db"
    by (simp add: free_caller_def anonymous_request_def)
  have ok: "no_faults (quiet_env t)" for t
    by (simp add: no_faults_def quiet_env_def)
  have day: "today (quiet_env t) = today (quiet_env 1)" for t
    by (simp add: quiet_env_def)
  have absent: "recipe_usage empty_db (identifier_of anonymous_request, today (quiet_env 1)) = None"
    by (simp add: empty_db_def)
  have day1: "today (quiet_env 1) = ''2024-05-01''"
    by (simp add: quiet_env_def)
  show ?thesis
    using four_requests_of_a_free_caller [OF free ok ok ok ok day day day absent] free ok absent
    by (simp only: day1)
qed

text \<open>
  Claim C3. When the request carries a user id, the query of the user row is answered,
  and the row is active and premium, the limiter calls \<open>next\<close> and leaves the tables as
  they were. This holds whatever the usage table contains and whatever fault is injected
  into the usage queries, so no usage record is read or written on the way, and the
  answer is never the 429 of the limit.
\<close>

theorem premium_user_bypasses_the_counter:
  assumes "truthy (user_id req)"
    and "users d (the (user_id req)) = Some row"
    and "subscription_status row = ''active''"
    and "subscription_tier row = ''premium''"
    and "user_read_fault e = None"
  shows "recipeGenerationLimiter
           (e\<lparr>usage_read_fault := f_read, usage_write_fault := f_write\<rparr>) req
           (d\<lparr>recipe_usage := usage\<rparr>)
         = (Next None, d\<lparr>recipe_usage := usage\<rparr>)"
  using assms
  by (simp add: recipeGenerationLimiter_def check_premium_def single_def is_premium_def)

theorem premium_user_bypasses_the_counter_witness:
  "truthy (user_id premium_request) \<and>
   users premium_db (the (user_id premium_request)) = Some premium_row \<and>
   subscription_status premium_row = ''active'' \<and>
   subscription_tier premium_row = ''premium'' \<and>
   user_read_fault (quiet_env 5) = None \<and>
   recipeGenerationLimiter
     ((quiet_env 5)\<lparr>usage_read_fault := Some Throws, usage_write_fault := Some Throws\<rparr>)
     premium_request (premium_db\<lparr>recipe_usage := exhausted_usage\<rparr>)
   = (Next None, premium_db\<lparr>recipe_usage := exhausted_usage\<rparr>)"
proof -
  have h1: "truthy (user_id premium_request)"
    by (simp add: premium_request_def)
  have h2: "users premium_db (the (user_id premium_request)) = Some premium_row"
    by (simp add: premium_request_def premium_db_def)
  have h3: "subscription_status premium_row = ''active''"
    by (simp add: premium_row_def)
  have h4: "subscription_tier premium_row = ''premium''"
    by (simp add: premium_row_def)
  have h5: "user_read_fault (quiet_env 5) = None"
    by (simp add: quiet_env_def)
  show ?thesis
    using premium_user_bypasses_the_counter [OF h1 h2 h3 h4 h5] h1 h2 h3 h4 h5
    by blast
qed

text \<open>
  For comparison: were the write to throw, which is not how the client reports a failed
  query, control would reach the \<^verbatim>\<open>catch\<close> block, which answers 500.
\<close>

lemma thrown_write_is_caught:
  assumes "free_caller req d" and "user_read_fault e = None" and "usage_read_fault e = None"
    and "usage_write_fault e = Some Throws"
    and "currentCount_of (recipe_usage d (identifier_of req, today e)) < maxFreeRecipes"
  shows "recipeGenerationLimiter e req d = (internal_server_error, d)"
proof (cases "recipe_usage d (identifier_of req, today e)")
  case None
  with assms show ?thesis
    by (simp add: recipeGenerationLimiter_def check_premium_free count_and_admit_def
        single_def write_unchecked_def currentCount_of_def Let_def)
next
  case (Some row)
  with assms show ?thesis
    by (simp add: recipeGenerationLimiter_def check_premium_free count_and_admit_def
        single_def write_unchecked_def Let_def)
qed

text \<open>
  Claim C8. For a caller on the free tier whose premium check went through: when the
  query of the usage record fails with anything but the code of a missing row (an error
  reply with another code, or a throw), the answer is the generic 500 and nothing is
  written; when the read is answered, the count is below the limit and the write comes
  back with an error reply, the request is admitted all the same, with the headers of an
  admitted request, and the tables are as before, so the request is not counted.
\<close>

theorem usage_read_fails_closed_and_write_failure_is_ignored:
  assumes "free_caller req d" and "user_read_fault e = None"
  shows "(usage_read_fault e = Some f \<and> f \<noteq> ErrorReply ''PGRST116'' \<longrightarrow>
            recipeGenerationLimiter e req d =
              (Respond 500 (JObj [(''error'', JStr ''Internal server error'')]), d)) \<and>
         (usage_read_fault e = None \<and> usage_write_fault e = Some (ErrorReply c) \<and>
          currentCount_of (recipe_usage d (identifier_of req, today e)) < maxFreeRecipes \<longrightarrow>
            recipeGenerationLimiter e req d =
              (Next (Some \<lparr>x_ratelimit_remaining =
                             maxFreeRecipes -
                             currentCount_of (recipe_usage d (identifier_of req, today e)) - 1,
                           x_ratelimit_limit = maxFreeRecipes,
                           x_ratelimit_reset = now e + 24 * 60 * 60 * 1000\<rparr>), d))"
proof (intro conjI impI)
  assume a: "usage_read_fault e = Some f \<and> f \<noteq> ErrorReply ''PGRST116''"
  show "recipeGenerationLimiter e req d =
          (Respond 500 (JObj [(''error'', JStr ''Internal server error'')]), d)"
  proof (cases f)
    case (ErrorReply code)
    with a assms show ?thesis
      by (simp add: recipeGenerationLimiter_def check_premium_free count_and_admit_def
          single_def internal_server_error_def)
  next
    case Throws
    with a assms show ?thesis
      by (simp add: recipeGenerationLimiter_def check_premium_free count_and_admit_def
          single_def internal_server_error_def)
  qed
next
  assume b: "usage_read_fault e = None \<and> usage_write_fault e = Some (ErrorReply c) \<and>
    currentCount_of (recipe_usage d (identifier_of req, today e)) < maxFreeRecipes"
  show "recipeGenerationLimiter e req d =
          (Next (Some \<lparr>x_ratelimit_remaining =
                         maxFreeRecipes -
                         currentCount_of (recipe_usage d (identifier_of req, today e)) - 1,
                       x_ratelimit_limit = maxFreeRecipes,
                       x_ratelimit_reset = now e + 24 * 60 * 60 * 1000\<rparr>), d)"
  proof (cases "recipe_usage d (identifier_of req, today e)")
    case None
    with b assms show ?thesis
      by (simp add: recipeGenerationLimiter_def check_premium_free count_and_admit_def
          single_def write_unchecked_def currentCount_of_def Let_def)
  next
    case (Some row)
    with b assms show ?thesis
      by (simp add: recipeGenerationLimiter_def check_premium_free count_and_admit_def
          single_def write_unchecked_def Let_def)
  qed
qed

theorem usage_read_fails_closed_and_write_failure_is_ignored_witness:
  "free_caller anonymous_request empty_db \<and>
   user_read_fault read_fault_env = None \<and>
   usage_read_fault read_fault_env = Some (ErrorReply ''57014'') \<and>
   ErrorReply ''57014'' \<noteq> ErrorReply ''PGRST116'' \<and>
   recipeGenerationLimiter read_fault_env anonymous_request empty_db =
     (Respond 500 (JObj [(''error'', JStr ''Internal server error'')]), empty_db) \<and>
   user_read_fault write_fault_env = None \<and>
   usage_read_fault write_fault_env = None \<and>
   usage_write_fault write_fault_env = Some (ErrorReply ''40001'') \<and>
   currentCount_of (recipe_usage empty_db (identifier_of anonymous_request, today write_fault_env))
     < maxFreeRecipes \<and>
   recipeGenerationLimiter write_fault_env anonymous_request empty_db =
     (Next (Some \<lparr>x_ratelimit_remaining = 2, x_ratelimit_limit = 3,
                  x_ratelimit_reset = 86400007\<rparr>), empty_db)"
proof -
  have free: "free_caller anonymous_request empty_db"
    by (simp add: free_caller_def anonymous_request_def)
  have r1: "user_read_fault read_fault_env = None"
    and r2: "usage_read_fault read_fault_env = Some (ErrorReply ''57014'')"
    by (simp_all add: read_fault_env_def quiet_env_def)
  have r3: "ErrorReply ''57014'' \<noteq> ErrorReply ''PGRST116''"
    by simp
  have w1: "user_read_fault write_fault_env = None"
    and w2: "usage_read_fault write_fault_env = None"
    and w3: "usage_write_fault write_fault_env = Some (ErrorReply ''40001'')"
    and w5: "now write_fault_env = 7"
    by (simp_all add: write_fault_env_def quiet_env_def)
  have w4: "currentCount_of
      (recipe_usage empty_db (identifier_of anonymous_request, today write_fault_env)) = 0"
    by (simp add: empty_db_def currentCount_of_def)
  have m: "maxFreeRecipes = 3"
    by (simp add: maxFreeRecipes_def)
  from usage_read_fails_closed_and_write_failure_is_ignored
         [OF free r1, of "ErrorReply ''57014''" "''40001''"] r2 r3
  have a: "recipeGenerationLimiter read_fault_env anonymous_request empty_db =
     (Respond 500 (JObj [(''error'', JStr ''Internal server error'')]), empty_db)"
    by blast
  from usage_read_fails_closed_and_write_failure_is_ignored
         [OF free w1, of "ErrorReply ''57014''" "''40001''"] w2 w3 w4 m
  have b: "recipeGenerationLimiter write_fault_env anonymous_request empty_db =
     (Next (Some \<lparr>x_ratelimit_remaining = 2, x_ratelimit_limit = 3,
                  x_ratelimit_reset = 86400007\<rparr>), empty_db)"
    by (simp add: w5)
  show ?thesis
    using free r1 r2 r3 a w1 w2 w3 w4 m b by simp
qed

text \<open>
  Claim C10. On the route, the limiter runs before the validation. So when a caller on
  the free tier is below the limit, every query is answered and the body fails the
  validation, the answer is the 400 of the validation and the caller's count for the day
  has gone up by one.
\<close>

theorem invalid_request_consumes_quota:
  assumes "free_caller req d" and "no_faults e"
    and "currentCount_of (recipe_usage d (identifier_of req, today e)) < maxFreeRecipes"
    and "recipeValidation len b \<noteq> []"
  shows "fst (generate_recipe_route len generate e req b d) =
           Respond 400 (JObj [(''error'', JStr ''Validation failed''),
                              (''details'', JArr (map JStr (recipeValidation len b)))]) \<and>
         currentCount_of
           (recipe_usage (snd (generate_recipe_route len generate e req b d))
              (identifier_of req, today e)) =
         currentCount_of (recipe_usage d (identifier_of req, today e)) + 1"
proof (cases "recipe_usage d (identifier_of req, today e)")
  case None
  with assms show ?thesis
    by (simp add: generate_recipe_route_def recipeGenerationLimiter_def check_premium_free
        no_faults_def count_and_admit_def single_def write_unchecked_def insert_usage_def
        currentCount_of_def validation_failed_def Let_def)
next
  case (Some row)
  with assms show ?thesis
    by (simp add: generate_recipe_route_def recipeGenerationLimiter_def check_premium_free
        no_faults_def count_and_admit_def single_def write_unchecked_def update_count_def
        currentCount_of_def validation_failed_def Let_def)
qed

theorem invalid_request_consumes_quota_witness:
  "free_caller anonymous_request empty_db \<and> no_faults (quiet_env 8) \<and>
   currentCount_of (recipe_usage empty_db (identifier_of anonymous_request, today (quiet_env 8)))
     < maxFreeRecipes \<and>
   recipeValidation length short_body \<noteq> [] \<and>
   fst (generate_recipe_route length any_answer (quiet_env 8) anonymous_request short_body empty_db) =
     Respond 400 (JObj [(''error'', JStr ''Validation failed''),
                        (''details'', JArr [JStr ''ingredients''])]) \<and>
   currentCount_of
     (recipe_usage
        (snd (generate_recipe_route length any_answer (quiet_env 8) anonymous_request short_body
                empty_db))
        (identifier_of anonymous_request, today (quiet_env 8))) = 1"
proof -
  have free: "free_caller anonymous_request empty_db"
    by (simp add: free_caller_def anonymous_request_def)
  have ok: "no_faults (quiet_env 8)"
    by (simp add: no_faults_def quiet_env_def)
  have zero: "currentCount_of
      (recipe_usage empty_db (identifier_of anonymous_request, today (quiet_env 8))) = 0"
    by (simp add: empty_db_def currentCount_of_def)
  have below: "currentCount_of
      (recipe_usage empty_db (identifier_of anonymous_request, today (quiet_env 8))) < maxFreeRecipes"
    by (simp add: zero maxFreeRecipes_def)
  have errs: "recipeValidation length short_body = [''ingredients'']"
    by (simp add: recipeValidation_def short_body_def is_string_of_length_def
        optional_string_in_def ascii_def)
  have bad: "recipeValidation length short_body \<noteq> []"
    by (simp add: errs)
  show ?thesis
    using invalid_request_consumes_quota [OF free ok below bad, of any_answer]
      free ok below bad
    by (simp add: errs zero)
qed

section \<open>Properties of the subscription webhook\<close>

lemma log_and_swallow_returns: "\<exists>d'. log_and_swallow d r = Inr d'"
  by (cases r) (simp_all add: log_and_swallow_def)

lemma handle_event_returns: "\<exists>d'. handle_event w event d = Inr d'"
  by (simp add: handle_event_def handleCheckoutSessionCompleted_def handleSubscriptionCreated_def
      handleSubscriptionUpdated_def handleSubscriptionDeleted_def handlePaymentSucceeded_def
      handlePaymentFailed_def log_and_swallow_returns)

lemma deleted_once:
  assumes "metadata sub = Some m" and "map_of m ''userId'' = Some u"
    and "users d u = Some row" and "users_write_fault w = None"
  shows "handleSubscriptionDeleted w sub d =
           Inr (d\<lparr>users := (users d)(u \<mapsto> cancelled_at (clock w) row)\<rparr>)"
  using assms
  by (simp add: handleSubscriptionDeleted_def metadata_key_def update_user_def
      write_unchecked_def log_and_swallow_def cancelled_at_def)

text \<open>
  Claim C5, as stated, fails: the end date written is the time of the application, so a
  second application at a later time leaves another row than the first.
\<close>

theorem subscription_deleted_twice_counterexample:
  "users (db_after (db_after premium_db
                      (handleSubscriptionDeleted (webhook_env_at 1000 2) deleted_subscription premium_db))
            (handleSubscriptionDeleted (webhook_env_at 2000 3) deleted_subscription
               (db_after premium_db
                  (handleSubscriptionDeleted (webhook_env_at 1000 2) deleted_subscription premium_db))))
     ''user-1''
   \<noteq>
   users (db_after premium_db
            (handleSubscriptionDeleted (webhook_env_at 1000 2) deleted_subscription premium_db))
     ''user-1''"
  by (simp add: handleSubscriptionDeleted_def metadata_key_def update_user_def write_unchecked_def
      log_and_swallow_def db_after_def webhook_env_at_def deleted_subscription_def premium_db_def
      premium_row_def)

text \<open>
  Claim C5, amended. When the event names a user who has a row and the update is carried
  out, the handler sets the status to cancelled, the tier to free and the end date (and
  \<open>updated_at\<close>) to the time of the application, and touches nothing else. After a second
  application the status and the tier are the same and the two dates are those of the
  second application; applied twice at the same time, the tables are the same as after
  once.
\<close>

theorem subscription_deleted_overwrites:
  assumes "metadata sub = Some m" and "map_of m ''userId'' = Some u"
    and "users d u = Some row"
    and "users_write_fault w1 = None" and "users_write_fault w2 = None"
  shows "let d1 = db_after d (handleSubscriptionDeleted w1 sub d);
             d2 = db_after d1 (handleSubscriptionDeleted w2 sub d1)
         in d1 = d\<lparr>users := (users d)(u \<mapsto> cancelled_at (clock w1) row)\<rparr> \<and>
            d2 = d\<lparr>users := (users d)(u \<mapsto> cancelled_at (clock w2) row)\<rparr> \<and>
            (clock w2 = clock w1 \<longrightarrow> d2 = d1)"
proof -
  let ?d1 = "d\<lparr>users := (users d)(u \<mapsto> cancelled_at (clock w1) row)\<rparr>"
  have one: "handleSubscriptionDeleted w1 sub d = Inr ?d1"
    using assms by (simp add: deleted_once)
  have row1: "users ?d1 u = Some (cancelled_at (clock w1) row)"
    by simp
  have two: "handleSubscriptionDeleted w2 sub ?d1 =
      Inr (?d1\<lparr>users := (users ?d1)(u \<mapsto> cancelled_at (clock w2) (cancelled_at (clock w1) row))\<rparr>)"
    using deleted_once [OF assms(1) assms(2) row1 assms(5)] .
  have again: "cancelled_at t (cancelled_at s row) = cancelled_at t row" for s t
    by (simp add: cancelled_at_def)
  show ?thesis
    by (simp add: Let_def one two again db_after_def)
qed

theorem subscription_deleted_overwrites_witness:
  "metadata deleted_subscription = Some [(''userId'', ''user-1'')] \<and>
   map_of [(''userId'', ''user-1'')] ''userId'' = Some ''user-1'' \<and>
   users premium_db ''user-1'' = Some premium_row \<and>
   users_write_fault (webhook_env_at 1000 2) = None \<and>
   users_write_fault (webhook_env_at 2000 3) = None \<and>
   (let d1 = db_after premium_db
               (handleSubscriptionDeleted (webhook_env_at 1000 2) deleted_subscription premium_db);
        d2 = db_after d1 (handleSubscriptionDeleted (webhook_env_at 2000 3) deleted_subscription d1)
    in d1 = premium_db\<lparr>users := (users premium_db)(''user-1'' \<mapsto> cancelled_at 1000 premium_row)\<rparr> \<and>
       d2 = premium_db\<lparr>users := (users premium_db)(''user-1'' \<mapsto> cancelled_at 2000 premium_row)\<rparr>) \<and>
   clock (webhook_env_at 1000 3) = clock (webhook_env_at 1000 2) \<and>
   (let d1 = db_after premium_db
               (handleSubscriptionDeleted (webhook_env_at 1000 2) deleted_subscription premium_db);
        d2 = db_after d1 (handleSubscriptionDeleted (webhook_env_at 1000 3) deleted_subscription d1)
    in d2 = d1)"
proof -
  have h1: "metadata deleted_subscription = Some [(''userId'', ''user-1'')]"
    by (simp add: deleted_subscription_def)
  have h2: "map_of [(''userId'', ''user-1'')] ''userId'' = Some ''user-1''"
    by simp
  have h3: "users premium_db ''user-1'' = Some premium_row"
    by (simp add: premium_db_def)
  have h4: "users_write_fault (webhook_env_at t n) = None" for t n
    by (simp add: webhook_env_at_def)
  have c: "clock (webhook_env_at t n) = t" for t n
    by (simp add: webhook_env_at_def)
  show ?thesis
    using subscription_deleted_overwrites [OF h1 h2 h3 h4 h4, of 1000 2 2000 3]
      subscription_deleted_overwrites [OF h1 h2 h3 h4 h4, of 1000 2 1000 3] h1 h2 h3 h4
    by (auto simp: Let_def c)
qed

subsection \<open>The endpoint\<close>






text \<open>
  The handler of the route, handed the bytes of a call: when the signature verifies it
  answers 200 with the acknowledgment and leaves the tables as the handler of the event
  left them; when it does not, it answers 400 and changes nothing.
\<close>

lemma webhook_handler_on_bytes:
  "webhook_handler w (Bytes bytes) sig d =
     (case verify w bytes sig of
        Inl message \<Rightarrow> (Respond 400 (JStr (''Webhook Error: '' @ message)), d)
      | Inr event \<Rightarrow>
          (Respond 200 (JObj [(''received'', JBool True)]), db_after d (handle_event w event d)))"
proof (cases "verify w bytes sig")
  case (Inl message)
  then show ?thesis
    by (simp add: webhook_handler_def constructEvent_def)
next
  case (Inr event)
  obtain d' where "handle_event w event d = Inr d'"
    using handle_event_returns by blast
  with Inr show ?thesis
    by (simp add: webhook_handler_def constructEvent_def db_after_def)
qed

text \<open>
  The route as \<^verbatim>\<open>server.js\<close> mounts it never hands the handler the bytes. The JSON
  parser of line 45 has taken the body of a call of content type \<^verbatim>\<open>application/json\<close>
  before the route is reached, and the raw-body parser of the route passes a body that
  is already read; a call of another content type is not for the raw-body parser. The
  handler gets an object, and the provider's library throws.
\<close>

lemma handler_gets_an_object:
  "express_json w req = Inr p \<Longrightarrow> body (express_raw req p) = Object"
  by (auto simp: express_json_def express_raw_def split: if_splits option.splits)

lemma webhook_handler_on_object:
  "webhook_handler w Object sig d =
     (Respond 400 (JStr (''Webhook Error: '' @ object_refused w)), d)"
  by (simp add: webhook_handler_def constructEvent_def)

lemma webhook_route_after_json:
  assumes "express_json w req = Inr p"
  shows "webhook_route w req p d =
     (if hits w > 10
      then (Respond 429 (JObj [(''error'', JStr ''Webhook rate limit exceeded'')]), d)
      else (Respond 400 (JStr (''Webhook Error: '' @ object_refused w)), d))"
  using handler_gets_an_object [OF assms]
  by (simp add: webhook_route_def webhookLimiter_def webhook_handler_on_object)

lemma no_call_is_acknowledged:
  "fst (post_webhook w req d) \<noteq> Respond 200 (JObj [(''received'', JBool True)]) \<and>
   snd (post_webhook w req d) = d"
proof (cases "express_json w req")
  case (Inl err)
  then show ?thesis
    by (simp add: post_webhook_def errorHandler_def Let_def split: prod.splits)
next
  case (Inr p)
  then show ?thesis
    by (simp add: post_webhook_def rateLimiter_def webhook_route_after_json)
qed

text \<open>
  So the provider's own call, the first of its minute, its signature made for the bytes
  of its body, is answered 400 and the subscription it deletes stays active; the handler
  handed those bytes would have answered 200 and cancelled it.
\<close>

lemma provider_call_is_refused:
  "verify (webhook_env_at 1000 2) (raw_body provider_call) (signature provider_call) =
     Inr deleted_event \<and>
   post_webhook (webhook_env_at 1000 2) provider_call premium_db =
     (Respond 400 (JStr ''Webhook Error: Webhook payload must be provided as a string or a Buffer''),
      premium_db) \<and>
   webhook_handler (webhook_env_at 1000 2) (Bytes (raw_body provider_call))
       (signature provider_call) premium_db =
     (Respond 200 (JObj [(''received'', JBool True)]),
      premium_db\<lparr>users := (users premium_db)(''user-1'' \<mapsto> cancelled_at 1000 premium_row)\<rparr>)"
proof -
  have v: "verify (webhook_env_at 1000 2) (raw_body provider_call) (signature provider_call) =
      Inr deleted_event"
    by (simp add: webhook_env_at_def provider_call_def signed_by_provider_def)
  have j: "express_json (webhook_env_at 1000 2) provider_call =
      Inr \<lparr>body = Object, body_read = True\<rparr>"
    by (simp add: express_json_def webhook_env_at_def provider_call_def)
  have r: "post_webhook (webhook_env_at 1000 2) provider_call premium_db =
      (Respond 400 (JStr ''Webhook Error: Webhook payload must be provided as a string or a Buffer''),
       premium_db)"
    using j webhook_route_after_json [OF j, of premium_db]
    by (simp add: post_webhook_def rateLimiter_def webhook_env_at_def)
  have h: "handle_event (webhook_env_at 1000 2) deleted_event premium_db =
      Inr (premium_db\<lparr>users := (users premium_db)(''user-1'' \<mapsto> cancelled_at 1000 premium_row)\<rparr>)"
    by (simp add: handle_event_def deleted_event_def handleSubscriptionDeleted_def
        metadata_key_def deleted_subscription_def update_user_def write_unchecked_def
        log_and_swallow_def webhook_env_at_def premium_db_def cancelled_at_def)
  show ?thesis
    by (simp add: v r webhook_handler_on_bytes h db_after_def)
qed




section \<open>Properties of the fallback recipe generator\<close>

lemma js_includes_sublist: "js_includes s sub = sublist sub s"
  by (induction s) (simp_all add: sublist_Cons_right)

lemma ascii_simps:
  "ascii [] = []"
  "ascii (c # cs) = of_char c # ascii cs"
  by (simp_all add: ascii_def)

subsection \<open>The matcher\<close>

lemma best_match_result:
  "best_match lc us rs (bm, bs) = (r, s) \<Longrightarrow>
     (r = bm \<and> s = bs \<and> (\<forall>x\<in>set rs. score lc us x \<le> bs)) \<or>
     (\<exists>pre post. rs = pre @ r # post \<and> s = score lc us r \<and> bs < s \<and>
        (\<forall>x\<in>set pre. score lc us x < s) \<and> (\<forall>x\<in>set post. score lc us x \<le> s))"
proof (induction rs arbitrary: bm bs)
  case Nil
  then show ?case by simp
next
  case (Cons a rs)
  show ?case
  proof (cases "score lc us a > bs")
    case True
    with Cons.prems have "best_match lc us rs (a, score lc us a) = (r, s)"
      by simp
    from Cons.IH [OF this] show ?thesis
    proof
      assume "r = a \<and> s = score lc us a \<and> (\<forall>x\<in>set rs. score lc us x \<le> score lc us a)"
      with True have "a # rs = [] @ r # rs \<and> s = score lc us r \<and> bs < s \<and>
          (\<forall>x\<in>set []. score lc us x < s) \<and> (\<forall>x\<in>set rs. score lc us x \<le> s)"
        by simp
      then show ?thesis by blast
    next
      assume "\<exists>pre post. rs = pre @ r # post \<and> s = score lc us r \<and> score lc us a < s \<and>
          (\<forall>x\<in>set pre. score lc us x < s) \<and> (\<forall>x\<in>set post. score lc us x \<le> s)"
      then obtain pre post where p: "rs = pre @ r # post" "s = score lc us r" "score lc us a < s"
          "\<forall>x\<in>set pre. score lc us x < s" "\<forall>x\<in>set post. score lc us x \<le> s"
        by blast
      with True have "a # rs = (a # pre) @ r # post \<and> s = score lc us r \<and> bs < s \<and>
          (\<forall>x\<in>set (a # pre). score lc us x < s) \<and> (\<forall>x\<in>set post. score lc us x \<le> s)"
        by simp
      then show ?thesis by blast
    qed
  next
    case False
    with Cons.prems have "best_match lc us rs (bm, bs) = (r, s)"
      by simp
    from Cons.IH [OF this] show ?thesis
    proof
      assume "r = bm \<and> s = bs \<and> (\<forall>x\<in>set rs. score lc us x \<le> bs)"
      with False show ?thesis by simp
    next
      assume "\<exists>pre post. rs = pre @ r # post \<and> s = score lc us r \<and> bs < s \<and>
          (\<forall>x\<in>set pre. score lc us x < s) \<and> (\<forall>x\<in>set post. score lc us x \<le> s)"
      then obtain pre post where p: "rs = pre @ r # post" "s = score lc us r" "bs < s"
          "\<forall>x\<in>set pre. score lc us x < s" "\<forall>x\<in>set post. score lc us x \<le> s"
        by blast
      with False have "a # rs = (a # pre) @ r # post \<and> s = score lc us r \<and> bs < s \<and>
          (\<forall>x\<in>set (a # pre). score lc us x < s) \<and> (\<forall>x\<in>set post. score lc us x \<le> s)"
        by simp
      then show ?thesis by blast
    qed
  qed
qed

text \<open>
  What the matcher does compute: the first template of \<open>allRecipes\<close> whose score is the
  greatest among the templates of \<open>allRecipes\<close>.
\<close>

lemma findBestMatchingRecipe_first_maximum:
  assumes "findBestMatchingRecipe lc us recipes = Some r"
  shows "\<exists>pre post. allRecipes recipes = pre @ r # post \<and>
           (\<forall>x\<in>set pre. score lc us x < score lc us r) \<and>
           (\<forall>x\<in>set post. score lc us x \<le> score lc us r)"
proof (cases "allRecipes recipes")
  case Nil
  with assms show ?thesis by (simp add: findBestMatchingRecipe_def)
next
  case (Cons first rest)
  obtain s where bm: "best_match lc us (first # rest) (first, 0) = (r, s)"
    using assms Cons by (cases "best_match lc us (first # rest) (first, 0)")
      (simp add: findBestMatchingRecipe_def)
  from best_match_result [OF bm] show ?thesis
  proof
    assume a: "r = first \<and> s = 0 \<and> (\<forall>x\<in>set (first # rest). score lc us x \<le> 0)"
    then have "allRecipes recipes = [] @ r # rest \<and>
        (\<forall>x\<in>set []. score lc us x < score lc us r) \<and>
        (\<forall>x\<in>set rest. score lc us x \<le> score lc us r)"
      using Cons by simp
    then show ?thesis by blast
  next
    assume "\<exists>pre post. first # rest = pre @ r # post \<and> s = score lc us r \<and> 0 < s \<and>
        (\<forall>x\<in>set pre. score lc us x < s) \<and> (\<forall>x\<in>set post. score lc us x \<le> s)"
    then show ?thesis using Cons by auto
  qed
qed

lemma findBestMatchingRecipe_returns:
  "allRecipes recipes \<noteq> [] \<Longrightarrow> \<exists>r. findBestMatchingRecipe lc us recipes = Some r"
  by (cases "allRecipes recipes") (simp_all add: findBestMatchingRecipe_def)

lemmas catalog_defs =
  kimchi_fried_rice_def doenjang_stew_def cream_pasta_def tomato_pasta_def
  stir_fried_noodles_def chicken_vegetable_stir_fry_def egg_fried_rice_def salad_def

text \<open>
  Claim C2 fails on the code. The user types the one ingredient of line 546, the first of
  the burrito of the \<open>mexican\<close> category. That template's text includes it and no other
  template's does, so the greatest score over the catalog is 1; the matcher, whose
  \<open>allRecipes\<close> does not hold the burrito, returns the first template of \<open>korean\<close>, whose
  score is 0.
\<close>

theorem matcher_leaves_out_the_mexican_templates:
  "parseIngredients ascii_lower tortilla = [tortilla] \<and>
   chicken_burrito \<in> set (mexican getRecipeTemplates) \<and>
   chicken_burrito \<notin> set (allRecipes getRecipeTemplates) \<and>
   score ascii_lower [tortilla] chicken_burrito = 1 \<and>
   findBestMatchingRecipe ascii_lower [tortilla] getRecipeTemplates = Some kimchi_fried_rice \<and>
   score ascii_lower [tortilla] kimchi_fried_rice = 0"
proof -
  have p: "parseIngredients ascii_lower tortilla = [tortilla]"
    by (simp add: parseIngredients_def tortilla_def ascii_lower_def trim_def is_space_def)
  have m: "chicken_burrito \<in> set (mexican getRecipeTemplates)"
    by (simp add: getRecipeTemplates_def)
  have "name chicken_burrito \<notin> name ` set (allRecipes getRecipeTemplates)"
    by (simp add: allRecipes_def getRecipeTemplates_def catalog_defs chicken_burrito_def)
  then have o: "chicken_burrito \<notin> set (allRecipes getRecipeTemplates)"
    by blast
  have b: "score ascii_lower [tortilla] chicken_burrito = 1"
    by (simp add: score_def chicken_burrito_def ascii_lower_def tortilla_def)
  have z: "score ascii_lower [tortilla] kimchi_fried_rice = 0"
    "score ascii_lower [tortilla] doenjang_stew = 0"
    "score ascii_lower [tortilla] cream_pasta = 0"
    "score ascii_lower [tortilla] tomato_pasta = 0"
    "score ascii_lower [tortilla] stir_fried_noodles = 0"
    "score ascii_lower [tortilla] chicken_vegetable_stir_fry = 0"
    "score ascii_lower [tortilla] egg_fried_rice = 0"
    "score ascii_lower [tortilla] salad = 0"
    by (simp_all add: score_def catalog_defs ascii_lower_def tortilla_def)
  have f: "findBestMatchingRecipe ascii_lower [tortilla] getRecipeTemplates = Some kimchi_fried_rice"
    by (simp add: findBestMatchingRecipe_def allRecipes_def getRecipeTemplates_def z)
  show ?thesis
    using p m o b f z(1) by simp
qed

subsection \<open>The dietary restrictions\<close>

text \<open>
  The list of ingredients that \<open>customizeRecipe\<close> returns is the working list of the
  user's additions, whatever the restriction: what \<open>applyDietaryRestrictions\<close> has put
  into the \<open>ingredients\<close> of the customized recipe is overwritten on return.
\<close>

lemma customizeRecipe_ingredients:
  "ingredients (customizeRecipe lc r fd us) = add_user_ingredients lc (ingredients r) us"
  by (simp add: customizeRecipe_def Let_def)

lemma adjust_time_name: "name (adjust_time r b) = name r"
  by (simp add: adjust_time_def split: option.splits)

lemma customizeRecipe_name:
  "name (customizeRecipe lc r fd us) =
     cuisine_marker_step (cuisine fd)
       (if dietary fd \<noteq> [] then name (applyDietaryRestrictions (adjust_time r (cookingTime fd)) (dietary fd))
        else name r)"
  by (simp add: customizeRecipe_def Let_def adjust_time_name)

lemma applyDietaryRestrictions_name:
  "map_of restrictions dv = Some x \<Longrightarrow>
     name (applyDietaryRestrictions r dv) = name r @ ascii '' ('' @ dv @ ascii '')''"
  by (cases x) (simp add: applyDietaryRestrictions_def)

lemma stir_fry_ingredients:
  "ingredients chicken_vegetable_stir_fry =
     [[45805, 44032, 49844, 49332, 32, 50, 48, 48, 103],
      [50577, 54028, 32, 49, 44060],
      [54588, 47581, 32, 50, 44060],
      [47560, 45720, 32, 51, 51901],
      [44036, 51109, 32, 50, 53360, 49696],
      [50732, 47532, 48652, 50724, 51068, 32, 50, 53360, 49696],
      [49548, 44552, 44, 32, 54980, 52628, 32, 50557, 44036]]"
  by (simp add: chicken_vegetable_stir_fry_def)

lemma vegetarian_restriction:
  "map_of restrictions (ascii ''vegetarian'') =
     Some ([([45805, 44032, 49844, 49332], [46160, 48512]),
            ([46076, 51648, 44256, 44592], [48260, 49455]),
            ([49632, 44256, 44592], [53097, 44256, 44592])],
           [[44256, 44592], [49373, 49440], [49352, 50864]])"
  by (simp add: restrictions_def ascii_simps)

text \<open>
  Claim C4 fails on the code. The user types the first word of line 579 and chooses
  \<open>vegetarian\<close>. The matcher selects the template of line 571, whose first ingredient
  contains the term that the \<open>vegetarian\<close> table replaces by the word of line 745.
  \<open>applyDietaryRestrictions\<close>, run on that template, replaces it. The recipe that
  \<open>customizeRecipe\<close> returns has the restriction after its name, and the ingredients of
  the template, the term still in the first of them.
\<close>

theorem dietary_substitutions_are_dropped:
  "parseIngredients ascii_lower (fd_ingredients vegetarian_form) = [chicken_breast] \<and>
   findBestMatchingRecipe ascii_lower [chicken_breast] getRecipeTemplates =
     Some chicken_vegetable_stir_fry \<and>
   (chicken_breast, [46160, 48512]) \<in>
     set (case map_of restrictions (dietary vegetarian_form) of
            None \<Rightarrow> [] | Some entry \<Rightarrow> fst entry) \<and>
   ingredients (applyDietaryRestrictions chicken_vegetable_stir_fry (dietary vegetarian_form)) =
     [46160, 48512, 32, 50, 48, 48, 103] # tl (ingredients chicken_vegetable_stir_fry) \<and>
   ingredients
     (customizeRecipe ascii_lower chicken_vegetable_stir_fry vegetarian_form [chicken_breast]) =
     ingredients chicken_vegetable_stir_fry \<and>
   js_includes
     (hd (ingredients
        (customizeRecipe ascii_lower chicken_vegetable_stir_fry vegetarian_form [chicken_breast])))
     chicken_breast \<and>
   name (customizeRecipe ascii_lower chicken_vegetable_stir_fry vegetarian_form [chicken_breast]) =
     [55356, 57203, 32, 45805, 44032, 49844, 49332, 32, 50556, 52292, 48374, 51020, 32,
      40, 118, 101, 103, 101, 116, 97, 114, 105, 97, 110, 41]"
proof -
  have d: "dietary vegetarian_form = ascii ''vegetarian''"
    and c: "cuisine vegetarian_form = []"
    by (simp_all add: vegetarian_form_def)
  have parsed: "parseIngredients ascii_lower (fd_ingredients vegetarian_form) = [chicken_breast]"
    by (simp add: parseIngredients_def vegetarian_form_def chicken_breast_def ascii_lower_def
        trim_def is_space_def)
  have scores:
    "score ascii_lower [chicken_breast] kimchi_fried_rice = 0"
    "score ascii_lower [chicken_breast] doenjang_stew = 0"
    "score ascii_lower [chicken_breast] cream_pasta = 0"
    "score ascii_lower [chicken_breast] tomato_pasta = 0"
    "score ascii_lower [chicken_breast] stir_fried_noodles = 0"
    "score ascii_lower [chicken_breast] chicken_vegetable_stir_fry = 1"
    "score ascii_lower [chicken_breast] egg_fried_rice = 0"
    "score ascii_lower [chicken_breast] salad = 0"
    by (simp_all add: score_def catalog_defs ascii_lower_def chicken_breast_def)
  have selected: "findBestMatchingRecipe ascii_lower [chicken_breast] getRecipeTemplates =
      Some chicken_vegetable_stir_fry"
    by (simp add: findBestMatchingRecipe_def allRecipes_def getRecipeTemplates_def scores)
  have pair: "(chicken_breast, [46160, 48512]) \<in>
      set (case map_of restrictions (dietary vegetarian_form) of
             None \<Rightarrow> [] | Some entry \<Rightarrow> fst entry)"
    by (simp add: d vegetarian_restriction chicken_breast_def)
  have replaced:
    "ingredients (applyDietaryRestrictions chicken_vegetable_stir_fry (dietary vegetarian_form)) =
       [46160, 48512, 32, 50, 48, 48, 103] # tl (ingredients chicken_vegetable_stir_fry)"
    by (simp add: d applyDietaryRestrictions_def vegetarian_restriction stir_fry_ingredients
        replace_in_all_def)
  have kept: "ingredients
      (customizeRecipe ascii_lower chicken_vegetable_stir_fry vegetarian_form [chicken_breast]) =
      ingredients chicken_vegetable_stir_fry"
    by (simp add: customizeRecipe_ingredients stir_fry_ingredients isAlreadyIncluded_def
        ascii_lower_def chicken_breast_def)
  have still: "js_includes (hd (ingredients chicken_vegetable_stir_fry)) chicken_breast"
    by (simp add: stir_fry_ingredients chicken_breast_def)
  have nz: "ascii ''vegetarian'' \<noteq> []"
    by (simp add: ascii_simps)
  have n: "name (applyDietaryRestrictions
             (adjust_time chicken_vegetable_stir_fry (cookingTime vegetarian_form))
             (ascii ''vegetarian'')) =
           [45805, 44032, 49844, 49332, 32, 50556, 52292, 48374, 51020, 32,
            40, 118, 101, 103, 101, 116, 97, 114, 105, 97, 110, 41]"
    by (simp add: applyDietaryRestrictions_name [OF vegetarian_restriction] adjust_time_name)
       (simp add: chicken_vegetable_stir_fry_def ascii_simps)
  have e: "cuisine_emoji [] = [55356, 57203]"
    by (simp add: cuisine_emoji_def lookup_or_def cuisineEmojis_def object_prototype_keys_def
        frying_pan_def ascii_simps)
  have named:
    "name (customizeRecipe ascii_lower chicken_vegetable_stir_fry vegetarian_form [chicken_breast]) =
       [55356, 57203, 32, 45805, 44032, 49844, 49332, 32, 50556, 52292, 48374, 51020, 32,
        40, 118, 101, 103, 101, 116, 97, 114, 105, 97, 110, 41]"
    by (simp add: customizeRecipe_name d c nz n cuisine_marker_step_def e)
       (simp add: name_matches_def marker_class_def marker_emojis_def)
  show ?thesis
    using parsed selected pair replaced kept still named
    by (simp only: simp_thms)
qed

subsection \<open>The marker steps\<close>

lemma lookup_or_own:
  assumes "key \<notin> set object_prototype_keys"
  shows "lookup_or table key fallback \<in> insert fallback (snd ` set table)"
proof (cases "map_of table key")
  case None
  with assms show ?thesis
    by (simp add: lookup_or_def)
next
  case (Some v)
  then have "(key, v) \<in> set table"
    by (rule map_of_SomeD)
  then have "v \<in> snd ` set table"
    by force
  with Some show ?thesis
    by (simp add: lookup_or_def)
qed

lemma cuisine_emoji_is_marker:
  "c \<notin> set object_prototype_keys \<Longrightarrow> cuisine_emoji c \<in> set marker_emojis"
  using lookup_or_own [of c cuisineEmojis frying_pan]
  by (auto simp: cuisine_emoji_def cuisineEmojis_def marker_emojis_def frying_pan_def)

lemma marker_starts_in_class:
  "m \<in> set marker_emojis \<Longrightarrow> prefix m (c # cs) \<Longrightarrow> c \<in> set marker_class"
  by (auto simp: marker_emojis_def marker_class_def)

lemma no_match_no_occurrence: "\<not> name_matches nm \<Longrightarrow> occurrences marker_emojis nm = 0"
proof (induction nm)
  case Nil
  then show ?case by simp
next
  case (Cons c cs)
  from Cons.prems have c: "c \<notin> set marker_class" and cs: "\<not> name_matches cs"
    by (simp_all add: name_matches_def)
  have "\<not> list_ex (\<lambda>m. prefix m (c # cs)) marker_emojis"
    using c marker_starts_in_class by (auto simp: list_ex_iff)
  with Cons.IH [OF cs] show ?case by simp
qed

lemma prepended_marker_matches:
  "e \<in> set marker_emojis \<Longrightarrow> name_matches (e @ 32 # nm)"
  by (auto simp: marker_emojis_def name_matches_def marker_class_def)

lemma prepended_marker_occurs_once:
  assumes "e \<in> set marker_emojis" and "\<not> name_matches nm"
  shows "occurrences marker_emojis (e @ 32 # nm) = 1"
proof -
  have z: "occurrences marker_emojis nm = 0"
    using assms(2) by (rule no_match_no_occurrence)
  have "\<not> list_ex (\<lambda>m. prefix m (32 # nm)) marker_emojis"
    by (simp add: marker_emojis_def)
  then have s: "occurrences marker_emojis (32 # nm) = 0"
    using z by simp
  from assms(1) show ?thesis
    using s z by (auto simp: marker_emojis_def)
qed

lemma marker_class_is_surrogate: "c \<in> set marker_class \<Longrightarrow> is_surrogate c"
  by (auto simp: marker_class_def marker_emojis_def is_surrogate_def)

lemma plain_name_does_not_match: "\<not> list_ex is_surrogate nm \<Longrightarrow> \<not> name_matches nm"
  using marker_class_is_surrogate by (auto simp: name_matches_def list_ex_iff)

lemma marked_name_matches:
  assumes "list_ex (js_includes nm) marker_emojis"
  shows "name_matches nm"
proof -
  from assms obtain m where m: "m \<in> set marker_emojis" and s: "sublist m nm"
    by (auto simp: list_ex_iff js_includes_sublist)
  from m have "hd m \<in> set m \<and> hd m \<in> set marker_class"
    by (auto simp: marker_emojis_def marker_class_def)
  then obtain c where c: "c \<in> set m" "c \<in> set marker_class"
    by blast
  from s have "set m \<subseteq> set nm"
    by (rule set_mono_sublist)
  with c show ?thesis
    by (auto simp: name_matches_def list_ex_iff)
qed

lemma cuisine_marker_step_idempotent:
  assumes "c \<notin> set object_prototype_keys"
  shows "cuisine_marker_step c (cuisine_marker_step c nm) = cuisine_marker_step c nm"
proof -
  have "name_matches (cuisine_marker_step c nm)"
    using prepended_marker_matches [OF cuisine_emoji_is_marker [OF assms]]
    by (simp add: cuisine_marker_step_def)
  then show ?thesis
    by (simp add: cuisine_marker_step_def)
qed

lemma enhance_emoji_is_marker:
  "c \<notin> set object_prototype_keys \<Longrightarrow> enhance_emoji c \<in> set enhance_markers"
  using lookup_or_own [of c enhance_cuisineEmojis enhance_default_emoji]
  by (auto simp: enhance_emoji_def enhance_markers_def)

lemma enhance_markers_present:
  "list_ex (js_includes nm) enhance_markers = js_includes nm [240, 376]"
proof
  assume "list_ex (js_includes nm) enhance_markers"
  then obtain m where m: "m \<in> set enhance_markers" "sublist m nm"
    by (auto simp: list_ex_iff js_includes_sublist)
  from m(1) have "prefix [240, 376] m"
    by (auto simp: enhance_markers_def enhance_cuisineEmojis_def enhance_default_emoji_def)
  then have "sublist [240, 376] m"
    by (rule prefix_imp_sublist)
  with m(2) show "js_includes nm [240, 376]"
    unfolding js_includes_sublist by (blast intro: sublist_order.order.trans)
next
  assume "js_includes nm [240, 376]"
  moreover have "[240, 376] \<in> set enhance_markers"
    by (simp add: enhance_markers_def enhance_cuisineEmojis_def)
  ultimately show "list_ex (js_includes nm) enhance_markers"
    by (auto simp: list_ex_iff)
qed

lemma enhance_first_check_implies_second:
  "js_includes nm [240, 376, 179] \<Longrightarrow> js_includes nm [240, 376]"
proof -
  have "sublist [240, 376] [240, 376, 179::nat]"
    by (rule prefix_imp_sublist) simp
  then show "js_includes nm [240, 376, 179] \<Longrightarrow> js_includes nm [240, 376]"
    unfolding js_includes_sublist by (blast intro: sublist_order.order.trans)
qed

lemma enhance_step_cases:
  "enhance_marker_step (Some cu) nm =
     (if cu \<noteq> [] \<and> \<not> js_includes nm [240, 376] then enhance_emoji cu @ 32 # nm else nm)"
  using enhance_first_check_implies_second [of nm]
  by (auto simp: enhance_marker_step_def)

lemma enhance_tested_values: "enhance_tested = [[240, 376, 179], [240, 376]]"
  by (simp add: enhance_tested_def enhance_default_emoji_def enhance_emoji_def lookup_or_def
      enhance_cuisineEmojis_def ascii_simps)

lemma enhance_tested_present:
  "list_ex (js_includes nm) enhance_tested = js_includes nm [240, 376]"
  using enhance_first_check_implies_second [of nm]
  by (auto simp: enhance_tested_values)

lemma no_marker_no_occurrence:
  "\<not> list_ex (js_includes nm) ms \<Longrightarrow> occurrences ms nm = 0"
proof (induction nm)
  case Nil
  then show ?case by simp
next
  case (Cons c cs)
  from Cons.prems have here: "\<not> list_ex (\<lambda>m. prefix m (c # cs)) ms"
    and rest: "\<not> list_ex (js_includes cs) ms"
    by (auto simp: list_ex_iff)
  with Cons.IH [OF rest] show ?case by simp
qed

lemma enhance_prepended_occurs_once:
  assumes "e \<in> set enhance_markers" and "\<not> list_ex (js_includes nm) enhance_markers"
  shows "occurrences enhance_markers (e @ 32 # nm) = 1"
proof -
  have z: "occurrences enhance_markers nm = 0"
    using assms(2) by (rule no_marker_no_occurrence)
  have m: "enhance_markers =
      [[240, 376, 353], [240, 376], [240, 376, 339], [240, 376, 338, 174], [240, 376, 8221],
       [240, 376, 165, 8482], [240, 376, 8250], [240, 376, 165], [240, 376, 179]]"
    by (simp add: enhance_markers_def enhance_cuisineEmojis_def enhance_default_emoji_def)
  have tail: "occurrences enhance_markers (c # cs) = occurrences enhance_markers cs" if "c \<noteq> 240" for c cs
    using that by (simp add: m)
  have head: "occurrences enhance_markers (240 # 376 # cs) = 1 + occurrences enhance_markers (376 # cs)" for cs
    by (simp add: m)
  from assms(1) have "e \<in> set
      [[240, 376, 353], [240, 376], [240, 376, 339], [240, 376, 338, 174], [240, 376, 8221],
       [240, 376, 165, 8482], [240, 376, 8250], [240, 376, 165], [240, 376, 179]]"
    by (simp only: m)
  then show ?thesis
    by (auto simp: head tail z simp del: occurrences.simps)
qed

text \<open>
  Claim C6, as stated, fails. A name that holds two markers passes the customizer's step
  unchanged and holds two markers after it. And \<open>enhanceRecipe\<close> called without a cuisine
  leaves a plain name plain: no marker after it.
\<close>

theorem marker_count_counterexample:
  "cuisine_marker_step (ascii ''italian'') two_markers = two_markers \<and>
   occurrences marker_emojis (cuisine_marker_step (ascii ''italian'') two_markers) = 2 \<and>
   name (enhanceRecipe parsed_pasta no_options) = pasta \<and>
   occurrences enhance_markers (name (enhanceRecipe parsed_pasta no_options)) = 0"
proof -
  have a: "cuisine_marker_step (ascii ''italian'') two_markers = two_markers"
    by (simp add: cuisine_marker_step_def name_matches_def two_markers_def marker_class_def
        marker_emojis_def)
  have b: "occurrences marker_emojis two_markers = 2"
    by (simp add: two_markers_def marker_emojis_def)
  have c: "name (enhanceRecipe parsed_pasta no_options) = pasta"
    by (simp add: enhanceRecipe_def parsed_pasta_def no_options_def or_default_def
        enhance_marker_step_def)
  have d: "occurrences enhance_markers pasta = 0"
    by (simp add: pasta_def enhance_markers_def enhance_cuisineEmojis_def enhance_default_emoji_def)
  show ?thesis
    by (simp add: a b c d)
qed

text \<open>
  Claim C6, amended, for a cuisine whose name is not one that \<^verbatim>\<open>Object.prototype\<close>
  defines. The customizer's step returns a name that holds one of the nine markers as it
  is, however many it holds. To a name made of characters of the Basic Multilingual
  Plane, as every name of the catalog is, it prepends the marker of the cuisine, the
  frying pan when the cuisine has none, and a space; the name then holds exactly one
  marker. A second run of the step changes nothing. The step of \<open>enhanceRecipe\<close> does
  nothing when no cuisine is chosen. With a cuisine, it returns a name that holds one of
  the two markers it looks for as it is; to a name that holds none of its nine markers it
  prepends the marker of the cuisine, its default when the cuisine has none, and a space,
  and the name then holds exactly one marker. A second run of it changes nothing when the
  marker of the cuisine is one of the two it looks for.
\<close>

theorem marker_steps_on_marked_and_plain_names:
  assumes "c \<notin> set object_prototype_keys"
  shows "(list_ex (js_includes nm) marker_emojis \<longrightarrow> cuisine_marker_step c nm = nm) \<and>
         (\<not> list_ex is_surrogate nm \<longrightarrow>
            cuisine_marker_step c nm = cuisine_emoji c @ 32 # nm \<and>
            cuisine_emoji c \<in> set marker_emojis \<and>
            occurrences marker_emojis (cuisine_marker_step c nm) = 1) \<and>
         cuisine_marker_step c (cuisine_marker_step c nm) = cuisine_marker_step c nm \<and>
         enhance_marker_step None nm = nm \<and>
         enhance_marker_step (Some []) nm = nm \<and>
         (list_ex (js_includes nm) enhance_tested \<longrightarrow> enhance_marker_step (Some c) nm = nm) \<and>
         (c \<noteq> [] \<and> \<not> list_ex (js_includes nm) enhance_markers \<longrightarrow>
            enhance_marker_step (Some c) nm = enhance_emoji c @ 32 # nm \<and>
            enhance_emoji c \<in> set enhance_markers \<and>
            occurrences enhance_markers (enhance_marker_step (Some c) nm) = 1) \<and>
         (enhance_emoji c \<in> set enhance_tested \<longrightarrow>
            enhance_marker_step (Some c) (enhance_marker_step (Some c) nm) =
              enhance_marker_step (Some c) nm)"
proof -
  have marked: "list_ex (js_includes nm) marker_emojis \<Longrightarrow> cuisine_marker_step c nm = nm"
    using marked_name_matches [of nm] by (simp add: cuisine_marker_step_def)
  have plain: "cuisine_marker_step c nm = cuisine_emoji c @ 32 # nm \<and>
      cuisine_emoji c \<in> set marker_emojis \<and>
      occurrences marker_emojis (cuisine_marker_step c nm) = 1"
    if "\<not> list_ex is_surrogate nm"
  proof -
    have n: "\<not> name_matches nm"
      using that by (rule plain_name_does_not_match)
    have e: "cuisine_emoji c \<in> set marker_emojis"
      using assms by (rule cuisine_emoji_is_marker)
    show ?thesis
      using n e prepended_marker_occurs_once [OF e n] by (simp add: cuisine_marker_step_def)
  qed
  have idem: "cuisine_marker_step c (cuisine_marker_step c nm) = cuisine_marker_step c nm"
    using assms by (rule cuisine_marker_step_idempotent)
  have none: "enhance_marker_step None nm = nm" "enhance_marker_step (Some []) nm = nm"
    by (simp_all add: enhance_marker_step_def)
  have tested: "list_ex (js_includes nm) enhance_tested \<Longrightarrow> enhance_marker_step (Some c) nm = nm"
    by (simp add: enhance_tested_present enhance_step_cases)
  have fresh: "enhance_marker_step (Some c) nm = enhance_emoji c @ 32 # nm \<and>
      enhance_emoji c \<in> set enhance_markers \<and>
      occurrences enhance_markers (enhance_marker_step (Some c) nm) = 1"
    if "c \<noteq> [] \<and> \<not> list_ex (js_includes nm) enhance_markers"
  proof -
    have e: "enhance_emoji c \<in> set enhance_markers"
      using assms by (rule enhance_emoji_is_marker)
    have s: "enhance_marker_step (Some c) nm = enhance_emoji c @ 32 # nm"
      using that by (simp add: enhance_step_cases enhance_markers_present)
    show ?thesis
      using that e s enhance_prepended_occurs_once [OF e, of nm] by simp
  qed
  have eidem: "enhance_marker_step (Some c) (enhance_marker_step (Some c) nm) =
      enhance_marker_step (Some c) nm"
    if "enhance_emoji c \<in> set enhance_tested"
  proof -
    have "js_includes (enhance_emoji c @ 32 # nm) [240, 376]"
      using that by (auto simp: enhance_tested_values)
    then show ?thesis
      by (simp add: enhance_step_cases)
  qed
  show ?thesis
    using marked plain idem none tested fresh eidem by blast
qed

theorem marker_steps_on_marked_and_plain_names_witness:
  "ascii ''italian'' \<notin> set object_prototype_keys \<and>
   list_ex (js_includes two_markers) marker_emojis \<and>
   cuisine_marker_step (ascii ''italian'') two_markers = two_markers \<and>
   \<not> list_ex is_surrogate (name kimchi_fried_rice) \<and>
   cuisine_marker_step (ascii ''italian'') (name kimchi_fried_rice) =
     [55356, 57181, 32, 44608, 52824, 48374, 51020, 48165] \<and>
   occurrences marker_emojis (cuisine_marker_step (ascii ''italian'') (name kimchi_fried_rice)) = 1 \<and>
   cuisine_marker_step (ascii ''italian'')
       (cuisine_marker_step (ascii ''italian'') (name kimchi_fried_rice)) =
     cuisine_marker_step (ascii ''italian'') (name kimchi_fried_rice) \<and>
   list_ex (js_includes ([240, 376, 179, 32] @ pasta)) enhance_tested \<and>
   enhance_marker_step (Some (ascii ''italian'')) ([240, 376, 179, 32] @ pasta) =
     [240, 376, 179, 32] @ pasta \<and>
   ascii ''italian'' \<noteq> [] \<and>
   \<not> list_ex (js_includes pasta) enhance_markers \<and>
   enhance_marker_step (Some (ascii ''italian'')) pasta = [240, 376, 32, 80, 97, 115, 116, 97] \<and>
   occurrences enhance_markers (enhance_marker_step (Some (ascii ''italian'')) pasta) = 1 \<and>
   enhance_emoji (ascii ''italian'') \<in> set enhance_tested \<and>
   enhance_marker_step (Some (ascii ''italian'')) (enhance_marker_step (Some (ascii ''italian'')) pasta) =
     enhance_marker_step (Some (ascii ''italian'')) pasta"
proof -
  have own: "ascii ''italian'' \<notin> set object_prototype_keys"
    by (simp add: object_prototype_keys_def ascii_simps)
  have marked: "list_ex (js_includes two_markers) marker_emojis"
    by (simp add: two_markers_def marker_emojis_def)
  have nm: "name kimchi_fried_rice = [44608, 52824, 48374, 51020, 48165]"
    by (simp add: kimchi_fried_rice_def)
  have plain: "\<not> list_ex is_surrogate (name kimchi_fried_rice)"
    by (simp add: nm is_surrogate_def)
  have tested: "list_ex (js_includes ([240, 376, 179, 32] @ pasta)) enhance_tested"
    by (simp add: enhance_tested_values pasta_def)
  have k: "ascii ''italian'' \<noteq> []"
    by (simp add: ascii_simps)
  have none: "\<not> list_ex (js_includes pasta) enhance_markers"
    by (simp add: pasta_def enhance_markers_def enhance_cuisineEmojis_def enhance_default_emoji_def)
  have it: "cuisine_emoji (ascii ''italian'') = [55356, 57181]"
    by (simp add: cuisine_emoji_def lookup_or_def cuisineEmojis_def ascii_simps)
  have em: "enhance_emoji (ascii ''italian'') = [240, 376]"
    by (simp add: enhance_emoji_def lookup_or_def enhance_cuisineEmojis_def ascii_simps)
  have t: "enhance_emoji (ascii ''italian'') \<in> set enhance_tested"
    by (simp add: em enhance_tested_values)
  note two = marker_steps_on_marked_and_plain_names [OF own, of two_markers]
  note rice = marker_steps_on_marked_and_plain_names [OF own, of "name kimchi_fried_rice"]
  note marked_pasta = marker_steps_on_marked_and_plain_names [OF own, of "[240, 376, 179, 32] @ pasta"]
  note plain_pasta = marker_steps_on_marked_and_plain_names [OF own, of pasta]
  have a: "cuisine_marker_step (ascii ''italian'') two_markers = two_markers"
    using two marked by blast
  have b: "cuisine_marker_step (ascii ''italian'') (name kimchi_fried_rice) =
      cuisine_emoji (ascii ''italian'') @ 32 # name kimchi_fried_rice"
    and b1: "occurrences marker_emojis
      (cuisine_marker_step (ascii ''italian'') (name kimchi_fried_rice)) = 1"
    and b2: "cuisine_marker_step (ascii ''italian'')
       (cuisine_marker_step (ascii ''italian'') (name kimchi_fried_rice)) =
     cuisine_marker_step (ascii ''italian'') (name kimchi_fried_rice)"
    using rice plain by blast+
  have b': "cuisine_marker_step (ascii ''italian'') (name kimchi_fried_rice) =
      [55356, 57181, 32, 44608, 52824, 48374, 51020, 48165]"
    using b by (simp add: it nm)
  have c: "enhance_marker_step (Some (ascii ''italian'')) ([240, 376, 179, 32] @ pasta) =
      [240, 376, 179, 32] @ pasta"
    using marked_pasta tested by blast
  have d: "enhance_marker_step (Some (ascii ''italian'')) pasta =
      enhance_emoji (ascii ''italian'') @ 32 # pasta"
    and d1: "occurrences enhance_markers (enhance_marker_step (Some (ascii ''italian'')) pasta) = 1"
    using plain_pasta k none by blast+
  have d': "enhance_marker_step (Some (ascii ''italian'')) pasta = [240, 376, 32, 80, 97, 115, 116, 97]"
    using d by (simp add: em pasta_def)
  have e: "enhance_marker_step (Some (ascii ''italian''))
        (enhance_marker_step (Some (ascii ''italian'')) pasta) =
      enhance_marker_step (Some (ascii ''italian'')) pasta"
    using plain_pasta t by blast
  show ?thesis
    using own marked a plain b' b1 b2 tested c k none d' d1 t e by blast
qed

subsection \<open>The user's ingredients\<close>

lemma isAlreadyIncluded_mono:
  "set xs \<subseteq> set ys \<Longrightarrow> isAlreadyIncluded lc xs t \<Longrightarrow> isAlreadyIncluded lc ys t"
  by (auto simp: isAlreadyIncluded_def list_ex_iff)

lemma add_user_ingredients_append:
  "add_user_ingredients lc ings (xs @ ys) =
     add_user_ingredients lc (add_user_ingredients lc ings xs) ys"
  by (induction xs arbitrary: ings) simp_all

lemma add_user_ingredients_appends:
  "\<exists>adds. add_user_ingredients lc ings us = ings @ adds \<and>
     (\<forall>a\<in>set adds. \<exists>t\<in>set us. a = t @ amount_marker \<and> 3 \<le> length t \<and>
        \<not> isAlreadyIncluded lc ings t)"
proof (induction us arbitrary: ings)
  case Nil
  then show ?case by simp
next
  case (Cons u us)
  let ?w = "if \<not> isAlreadyIncluded lc ings u \<and> length u > 2 then ings @ [u @ amount_marker] else ings"
  from Cons.IH [of ?w] obtain adds where
    eq: "add_user_ingredients lc ?w us = ?w @ adds" and
    src: "\<forall>a\<in>set adds. \<exists>t\<in>set us. a = t @ amount_marker \<and> 3 \<le> length t \<and>
            \<not> isAlreadyIncluded lc ?w t"
    by blast
  have sub: "set ings \<subseteq> set ?w"
    by auto
  have src': "\<forall>a\<in>set adds. \<exists>t\<in>set (u # us). a = t @ amount_marker \<and> 3 \<le> length t \<and>
            \<not> isAlreadyIncluded lc ings t"
    using src isAlreadyIncluded_mono [OF sub] by fastforce
  show ?case
  proof (cases "\<not> isAlreadyIncluded lc ings u \<and> length u > 2")
    case True
    then have "add_user_ingredients lc ings (u # us) = ings @ (u @ amount_marker) # adds"
      using eq by simp
    moreover have "\<forall>a\<in>set ((u @ amount_marker) # adds). \<exists>t\<in>set (u # us).
        a = t @ amount_marker \<and> 3 \<le> length t \<and> \<not> isAlreadyIncluded lc ings t"
      using True src' by auto
    ultimately show ?thesis by blast
  next
    case False
    then have "add_user_ingredients lc ings (u # us) = ings @ adds"
      using eq by auto
    with src' show ?thesis by blast
  qed
qed

lemma kimchi_fried_rice_ingredients:
  "ingredients kimchi_fried_rice =
     [[48165, 32, 50, 44277, 44592],
      [44608, 52824, 32, 49, 52981],
      [46076, 51648, 44256, 44592, 32, 49, 48, 48, 103],
      [45804, 44096, 32, 50, 44060],
      [54028, 32, 50, 45824],
      [47560, 45720, 32, 50, 51901],
      [52280, 44592, 47492, 32, 49, 53360, 49696],
      [44036, 51109, 32, 49, 53360, 49696]]"
  by (simp add: kimchi_fried_rice_def)

text \<open>
  Claim C9, as stated, fails. The user types the two ingredients of \<open>plain_form\<close>, a sauce
  and, after it, the paste whose name the sauce's name begins with, and chooses nothing
  else. No template has either, so the matcher selects its first template, that of line
  365. Neither ingredient matches an entry of it and both are at least three long. The
  entry of the first is appended; the second is then found inside that entry and is not.
\<close>

theorem later_ingredient_counterexample:
  "parseIngredients ascii_lower (fd_ingredients plain_form) = [chili_paste_sauce, chili_paste] \<and>
   findBestMatchingRecipe ascii_lower [chili_paste_sauce, chili_paste] getRecipeTemplates =
     Some kimchi_fried_rice \<and>
   3 \<le> length chili_paste \<and>
   \<not> isAlreadyIncluded ascii_lower (ingredients kimchi_fried_rice) chili_paste \<and>
   ingredients (customizeRecipe ascii_lower kimchi_fried_rice plain_form [chili_paste_sauce, chili_paste]) =
     ingredients kimchi_fried_rice @ [chili_paste_sauce @ amount_marker] \<and>
   chili_paste @ amount_marker \<notin>
     set (ingredients (customizeRecipe ascii_lower kimchi_fried_rice plain_form [chili_paste_sauce, chili_paste]))"
proof -
  have p: "parseIngredients ascii_lower (fd_ingredients plain_form) = [chili_paste_sauce, chili_paste]"
    by (simp add: parseIngredients_def plain_form_def chili_paste_sauce_def chili_paste_def ascii_lower_def
        trim_def is_space_def)
  have scores:
    "score ascii_lower [chili_paste_sauce, chili_paste] kimchi_fried_rice = 0"
    "score ascii_lower [chili_paste_sauce, chili_paste] doenjang_stew = 0"
    "score ascii_lower [chili_paste_sauce, chili_paste] cream_pasta = 0"
    "score ascii_lower [chili_paste_sauce, chili_paste] tomato_pasta = 0"
    "score ascii_lower [chili_paste_sauce, chili_paste] stir_fried_noodles = 0"
    "score ascii_lower [chili_paste_sauce, chili_paste] chicken_vegetable_stir_fry = 0"
    "score ascii_lower [chili_paste_sauce, chili_paste] egg_fried_rice = 0"
    "score ascii_lower [chili_paste_sauce, chili_paste] salad = 0"
    by (simp_all add: score_def catalog_defs ascii_lower_def chili_paste_sauce_def chili_paste_def)
  have f: "findBestMatchingRecipe ascii_lower [chili_paste_sauce, chili_paste] getRecipeTemplates =
      Some kimchi_fried_rice"
    by (simp add: findBestMatchingRecipe_def allRecipes_def getRecipeTemplates_def scores)
  have l: "3 \<le> length chili_paste"
    by (simp add: chili_paste_def)
  have n: "\<not> isAlreadyIncluded ascii_lower (ingredients kimchi_fried_rice) chili_paste"
    by (simp add: kimchi_fried_rice_ingredients isAlreadyIncluded_def ascii_lower_def chili_paste_def first_word_def)
  have c: "ingredients (customizeRecipe ascii_lower kimchi_fried_rice plain_form [chili_paste_sauce, chili_paste]) =
     ingredients kimchi_fried_rice @ [chili_paste_sauce @ amount_marker]"
    by (simp add: customizeRecipe_ingredients kimchi_fried_rice_ingredients isAlreadyIncluded_def ascii_lower_def chili_paste_def
        chili_paste_sauce_def first_word_def amount_marker_def)
  have m: "chili_paste @ amount_marker \<notin> set (ingredients kimchi_fried_rice @ [chili_paste_sauce @ amount_marker])"
    by (simp add: kimchi_fried_rice_ingredients chili_paste_def chili_paste_sauce_def amount_marker_def)
  show ?thesis
    using p f l n c m by simp
qed

text \<open>
  Claim C9, amended, for a restriction that is not a name that \<^verbatim>\<open>Object.prototype\<close>
  defines (for such a name nothing is returned). The customizer takes the ingredients of
  the user in turn and tests each against the working list: the list of the template
  followed by the entries appended for the ingredients before it. An ingredient at least
  three long that no entry of the working list matches gets one entry appended at the end
  of the working list, the ingredient followed by the amount marker; any other
  ingredient, shorter or matched, adds nothing. The list returned is the working list
  after the last ingredient; the list of the template is its beginning, unchanged.
\<close>

theorem user_ingredients_are_tested_against_the_working_list:
  assumes "dietary fd \<notin> set object_prototype_keys"
  shows "ingredients (customizeRecipe lc r fd []) = ingredients r \<and>
         ingredients (customizeRecipe lc r fd (pre @ [t])) =
           (if 3 \<le> length t \<and>
               \<not> isAlreadyIncluded lc (ingredients (customizeRecipe lc r fd pre)) t
            then ingredients (customizeRecipe lc r fd pre) @ [t @ amount_marker]
            else ingredients (customizeRecipe lc r fd pre)) \<and>
         prefix (ingredients r) (ingredients (customizeRecipe lc r fd us))"
proof -
  have first: "ingredients (customizeRecipe lc r fd []) = ingredients r"
    by (simp add: customizeRecipe_ingredients)
  have turn: "ingredients (customizeRecipe lc r fd (pre @ [t])) =
      (if 3 \<le> length t \<and>
          \<not> isAlreadyIncluded lc (ingredients (customizeRecipe lc r fd pre)) t
       then ingredients (customizeRecipe lc r fd pre) @ [t @ amount_marker]
       else ingredients (customizeRecipe lc r fd pre))"
    by (auto simp: customizeRecipe_ingredients add_user_ingredients_append)
  obtain adds where "add_user_ingredients lc (ingredients r) us = ingredients r @ adds"
    using add_user_ingredients_appends by blast
  then have kept: "prefix (ingredients r) (ingredients (customizeRecipe lc r fd us))"
    by (simp add: customizeRecipe_ingredients)
  show ?thesis
    using first turn kept by blast
qed

theorem user_ingredients_are_tested_against_the_working_list_witness:
  "dietary plain_form \<notin> set object_prototype_keys \<and>
   ingredients (customizeRecipe ascii_lower kimchi_fried_rice plain_form []) =
     ingredients kimchi_fried_rice \<and>
   3 \<le> length chili_paste_sauce \<and>
   \<not> isAlreadyIncluded ascii_lower (ingredients kimchi_fried_rice) chili_paste_sauce \<and>
   ingredients (customizeRecipe ascii_lower kimchi_fried_rice plain_form [chili_paste_sauce]) =
     ingredients kimchi_fried_rice @ [chili_paste_sauce @ amount_marker] \<and>
   3 \<le> length chili_paste \<and>
   isAlreadyIncluded ascii_lower
     (ingredients kimchi_fried_rice @ [chili_paste_sauce @ amount_marker]) chili_paste \<and>
   ingredients
     (customizeRecipe ascii_lower kimchi_fried_rice plain_form [chili_paste_sauce, chili_paste]) =
     ingredients kimchi_fried_rice @ [chili_paste_sauce @ amount_marker] \<and>
   prefix (ingredients kimchi_fried_rice)
     (ingredients
        (customizeRecipe ascii_lower kimchi_fried_rice plain_form [chili_paste_sauce, chili_paste]))"
proof -
  have own: "dietary plain_form \<notin> set object_prototype_keys"
    by (simp add: plain_form_def object_prototype_keys_def ascii_simps)
  have l1: "3 \<le> length chili_paste_sauce" and l2: "3 \<le> length chili_paste"
    by (simp_all add: chili_paste_sauce_def chili_paste_def)
  have c1: "\<not> isAlreadyIncluded ascii_lower (ingredients kimchi_fried_rice) chili_paste_sauce"
    by (simp add: kimchi_fried_rice_ingredients isAlreadyIncluded_def ascii_lower_def
        chili_paste_sauce_def first_word_def)
  have c2: "isAlreadyIncluded ascii_lower
      (ingredients kimchi_fried_rice @ [chili_paste_sauce @ amount_marker]) chili_paste"
    by (simp add: kimchi_fried_rice_ingredients isAlreadyIncluded_def ascii_lower_def
        chili_paste_sauce_def chili_paste_def first_word_def amount_marker_def)
  note t1 = user_ingredients_are_tested_against_the_working_list
      [OF own, where lc = ascii_lower and r = kimchi_fried_rice and pre = "[]"
         and t = chili_paste_sauce and us = "[chili_paste_sauce, chili_paste]"]
  note t2 = user_ingredients_are_tested_against_the_working_list
      [OF own, where lc = ascii_lower and r = kimchi_fried_rice and pre = "[chili_paste_sauce]"
         and t = chili_paste and us = "[chili_paste_sauce, chili_paste]"]
  have e0: "ingredients (customizeRecipe ascii_lower kimchi_fried_rice plain_form []) =
      ingredients kimchi_fried_rice"
    using t1 by blast
  have e1: "ingredients (customizeRecipe ascii_lower kimchi_fried_rice plain_form [chili_paste_sauce]) =
      ingredients kimchi_fried_rice @ [chili_paste_sauce @ amount_marker]"
    using t1 e0 l1 c1 by simp
  have e2: "ingredients
      (customizeRecipe ascii_lower kimchi_fried_rice plain_form [chili_paste_sauce, chili_paste]) =
      ingredients kimchi_fried_rice @ [chili_paste_sauce @ amount_marker]"
    using t2 e1 c2 by simp
  have p: "prefix (ingredients kimchi_fried_rice)
      (ingredients
        (customizeRecipe ascii_lower kimchi_fried_rice plain_form [chili_paste_sauce, chili_paste]))"
    using t2 by blast
  show ?thesis
    using own e0 l1 c1 e1 l2 c2 e2 p by blast
qed

end
